theory Spec2Isabelle
  imports Main "HOL-Library.Word" "HOL-Library.Sublist"
begin

section \<open>The stunnel SPANK plugin (src/stunnel-plug.c)\<close>

text \<open>
  A shallow embedding of the tunnel plugin: the three configuration strings, the
  configuration loader, the command rendering done with \<^verbatim>\<open>snprintf\<close>, the launch of the
  helper through \<^verbatim>\<open>popen\<close>, the read of one token with \<^verbatim>\<open>fscanf\<close>, and the scheduler
  hooks that drive them. C strings are \<^typ>\<open>string\<close>, a \<^verbatim>\<open>char*\<close> that may be
  \<^verbatim>\<open>NULL\<close> is a \<^typ>\<open>string option\<close>, \<^verbatim>\<open>uint32_t\<close> is \<^typ>\<open>32 word\<close>, and the
  \<^verbatim>\<open>int\<close> status codes are \<^typ>\<open>int\<close>.
\<close>

subsection \<open>Compile-time constants\<close>

definition STUNNEL_LIBEXEC_PROG :: string where
  "STUNNEL_LIBEXEC_PROG = ''/usr/libexec/stunnel''"

definition DEFAULT_SSH_CMD :: string where
  "DEFAULT_SSH_CMD = ''ssh''"

definition DEFAULT_SSH_ARGS :: string where
  "DEFAULT_SSH_ARGS = ''''"

definition DEFAULT_HELPERTASK_ARGS :: string where
  "DEFAULT_HELPERTASK_ARGS = ''''"

text \<open>The double quote character, which the command patterns embed as \<^verbatim>\<open>\"\<close>.\<close>

definition dquote :: char where
  "dquote = CHR 0x22"

subsection \<open>The configuration state\<close>

text \<open>
  The three file-level pointers \<^verbatim>\<open>ssh_cmd\<close>, \<^verbatim>\<open>ssh_args\<close> and \<^verbatim>\<open>helpertask_args\<close>,
  all \<^verbatim>\<open>NULL\<close> when the plugin is loaded.
\<close>

record config =
  ssh_cmd :: "string option"
  ssh_args :: "string option"
  helpertask_args :: "string option"

definition initial_config :: config where
  "initial_config = \<lparr>ssh_cmd = None, ssh_args = None, helpertask_args = None\<rparr>"

text \<open>\<^verbatim>\<open>(ssh_cmd == NULL) ? DEFAULT_SSH_CMD : ssh_cmd\<close> and its two siblings.\<close>

definition ssh_cmd_or_default :: "config \<Rightarrow> string" where
  "ssh_cmd_or_default cfg = (case ssh_cmd cfg of None \<Rightarrow> DEFAULT_SSH_CMD | Some s \<Rightarrow> s)"

definition ssh_args_or_default :: "config \<Rightarrow> string" where
  "ssh_args_or_default cfg = (case ssh_args cfg of None \<Rightarrow> DEFAULT_SSH_ARGS | Some s \<Rightarrow> s)"

definition helpertask_args_or_default :: "config \<Rightarrow> string" where
  "helpertask_args_or_default cfg =
     (case helpertask_args cfg of None \<Rightarrow> DEFAULT_HELPERTASK_ARGS | Some s \<Rightarrow> s)"

subsection \<open>The configuration loader\<close>

text \<open>
  \<^verbatim>\<open>strncmp(a, b, n) == 0\<close> on C strings: the first \<open>n\<close> characters agree, the
  terminator included when a string is shorter than \<open>n\<close>.
\<close>

definition strncmp_eq :: "string \<Rightarrow> string \<Rightarrow> nat \<Rightarrow> bool" where
  "strncmp_eq a b n = (take n a = take n b)"

text \<open>The \<^verbatim>\<open>while\<close> loop that overwrites every \<^verbatim>\<open>'|'\<close> with a space.\<close>

fun replace_pipes :: "string \<Rightarrow> string" where
  "replace_pipes [] = []"
| "replace_pipes (c # cs) = (if c = CHR ''|'' then CHR '' '' else c) # replace_pipes cs"

text \<open>
  One iteration of the \<^verbatim>\<open>for\<close> loop of \<^verbatim>\<open>__stunnel_init_config\<close>. \<^verbatim>\<open>strdup\<close> is the
  C library's: it returns the copy, or \<^verbatim>\<open>NULL\<close> when memory is exhausted, and the loop
  guards \<^verbatim>\<open>p != NULL\<close>.
\<close>

definition init_config_step ::
  "(string \<Rightarrow> string option) \<Rightarrow> string \<Rightarrow> config \<Rightarrow> config" where
  "init_config_step strdup elt cfg =
     (if strncmp_eq elt ''ssh_cmd='' 8
      then cfg\<lparr>ssh_cmd := map_option replace_pipes (strdup (drop 8 elt))\<rparr>
      else if strncmp_eq elt ''ssh_args='' 9
      then cfg\<lparr>ssh_args := map_option replace_pipes (strdup (drop 9 elt))\<rparr>
      else if strncmp_eq elt ''helpertask_args='' 16
      then cfg\<lparr>helpertask_args := map_option replace_pipes (strdup (drop 16 elt))\<rparr>
      else cfg)"

fun stunnel_init_config ::
  "(string \<Rightarrow> string option) \<Rightarrow> string list \<Rightarrow> config \<Rightarrow> config" where
  "stunnel_init_config strdup [] cfg = cfg"
| "stunnel_init_config strdup (elt # av) cfg =
     stunnel_init_config strdup av (init_config_step strdup elt cfg)"

subsection \<open>Formatted output\<close>

text \<open>The decimal rendering of \<^verbatim>\<open>%u\<close>.\<close>

definition digit_char :: "nat \<Rightarrow> char" where
  "digit_char d = ''0123456789'' ! d"

function dec :: "nat \<Rightarrow> string" where
  "dec n = (if n < 10 then [digit_char n] else dec (n div 10) @ [digit_char (n mod 10)])"
  by pat_completeness auto
termination
  by (relation "measure id") auto

declare dec.simps [simp del]

datatype fmt_arg = ArgS string | ArgU "32 word"

text \<open>
  The two conversions the plugin's patterns use, \<^verbatim>\<open>%s\<close> and \<^verbatim>\<open>%u\<close>. Any other
  conversion, or one whose argument is missing or of the other kind, is undefined
  behaviour in C and \<open>None\<close> here.
\<close>

fun format :: "string \<Rightarrow> fmt_arg list \<Rightarrow> string option" where
  "format [] args = Some []"
| "format [c] args = (if c = CHR ''%'' then None else Some [c])"
| "format (c # d # cs) args =
     (if c \<noteq> CHR ''%'' then map_option ((#) c) (format (d # cs) args)
      else if d = CHR ''s'' then
        (case args of
           ArgS v # rest \<Rightarrow> map_option ((@) v) (format cs rest)
         | _ \<Rightarrow> None)
      else if d = CHR ''u'' then
        (case args of
           ArgU v # rest \<Rightarrow> map_option ((@) (dec (unat v))) (format cs rest)
         | _ \<Rightarrow> None)
      else None)"

text \<open>
  \<^verbatim>\<open>snprintf(buf, size, pattern, ...)\<close>: the buffer receives at most \<open>sz - 1\<close>
  characters, and the call returns the length the whole output would have had.
\<close>

definition snprintf :: "nat \<Rightarrow> string \<Rightarrow> fmt_arg list \<Rightarrow> (string \<times> nat) option" where
  "snprintf sz pattern args =
     map_option (\<lambda>s. (take (sz - 1) s, length s)) (format pattern args)"

subsection \<open>Reading one token: \<^verbatim>\<open>fscanf(f, "%255s", forward)\<close>\<close>

definition isspace :: "char \<Rightarrow> bool" where
  "isspace c = (c = CHR '' '' \<or> c = CHR 0x09 \<or> c = CHR 0x0A \<or> c = CHR 0x0B
                \<or> c = CHR 0x0C \<or> c = CHR 0x0D)"

fun skip_space :: "string \<Rightarrow> string" where
  "skip_space [] = []"
| "skip_space (c # cs) = (if isspace c then skip_space cs else c # cs)"

fun scan_token :: "nat \<Rightarrow> string \<Rightarrow> string" where
  "scan_token 0 cs = []"
| "scan_token (Suc n) [] = []"
| "scan_token (Suc n) (c # cs) = (if isspace c then [] else c # scan_token n cs)"

text \<open>
  The conversion skips leading white space, then stores characters up to the next white
  space, the end of the stream, or the field width. At the end of the stream before any
  character of a token, \<^verbatim>\<open>fscanf\<close> returns \<^verbatim>\<open>EOF\<close>, which is not 1: \<open>None\<close>.
\<close>

definition fscanf_255s :: "string \<Rightarrow> string option" where
  "fscanf_255s inp = (case skip_space inp of [] \<Rightarrow> None | c # cs \<Rightarrow> Some (scan_token 255 (c # cs)))"

text \<open>
  The token is stored as it is read, a NUL byte of the stream included. As a C string,
  which is how \<^verbatim>\<open>INFO\<close> prints \<^verbatim>\<open>forward\<close> with \<^verbatim>\<open>%s\<close>, the buffer ends at its
  first NUL byte.
\<close>

definition c_string :: "string \<Rightarrow> string" where
  "c_string buf = takeWhile (\<lambda>c. c \<noteq> CHR 0x00) buf"

subsection \<open>The world outside the plugin\<close>

text \<open>
  What the hooks leave behind: the lines written through \<^verbatim>\<open>INFO\<close> (that is
  \<^verbatim>\<open>slurm_debug\<close>) and \<^verbatim>\<open>ERROR\<close> (\<^verbatim>\<open>slurm_error\<close>), and the command lines handed to
  \<^verbatim>\<open>popen\<close>, in order.
\<close>

datatype log_entry = LInfo string | LError string

record world =
  logs :: "log_entry list"
  popen_calls :: "string list"

definition log_info :: "string \<Rightarrow> world \<Rightarrow> world" where
  "log_info msg w = w\<lparr>logs := logs w @ [LInfo msg]\<rparr>"

definition log_error :: "string \<Rightarrow> world \<Rightarrow> world" where
  "log_error msg w = w\<lparr>logs := logs w @ [LError msg]\<rparr>"

definition record_popen :: "string \<Rightarrow> world \<Rightarrow> world" where
  "record_popen cmd w = w\<lparr>popen_calls := popen_calls w @ [cmd]\<rparr>"

text \<open>
  A hook either returns its \<^verbatim>\<open>int\<close> status, or runs into undefined behaviour by
  handing a \<^verbatim>\<open>NULL\<close> pointer to \<^verbatim>\<open>strlen\<close>, \<^verbatim>\<open>fscanf\<close> or \<^verbatim>\<open>popen\<close>, or by reading a
  record that is not there.
\<close>

datatype outcome = Returned int world | Crashed world

text \<open>
  The job record of \<^verbatim>\<open>slurm_load_job\<close>: only the field the tunnel code reads,
  \<^verbatim>\<open>nodes\<close>, a \<^verbatim>\<open>char*\<close> that may be \<^verbatim>\<open>NULL\<close>.
\<close>

record job_info =
  nodes :: "string option"

record job_info_msg =
  record_count :: "32 word"
  job_array :: "job_info list"

text \<open>
  The collaborators the plugin calls and does not implement:
  \<^item> \<^verbatim>\<open>spank_remote\<close>;
  \<^item> \<^verbatim>\<open>spank_get_item\<close> for \<^verbatim>\<open>S_JOB_ID\<close> and \<^verbatim>\<open>S_JOB_STEPID\<close> (\<open>None\<close>: not
    \<^verbatim>\<open>ESPANK_SUCCESS\<close>);
  \<^item> \<^verbatim>\<open>slurm_load_job\<close> (\<open>None\<close>: a non-zero status);
  \<^item> \<^verbatim>\<open>slurm_hostlist_create\<close>, which expands a node list expression into its hosts,
    in order;
  \<^item> \<^verbatim>\<open>malloc\<close>, which succeeds or returns \<^verbatim>\<open>NULL\<close>;
  \<^item> \<^verbatim>\<open>popen\<close>, which maps a command line to everything the child writes to its
    standard output before closing it (\<open>None\<close>: \<^verbatim>\<open>popen\<close> returns \<^verbatim>\<open>NULL\<close>, the child
    could not be started).
\<close>

record env =
  spank_remote :: bool
  item_job_id :: "32 word option"
  item_job_stepid :: "32 word option"
  slurm_load_job :: "32 word \<Rightarrow> job_info_msg option"
  slurm_hostlist_create :: "string \<Rightarrow> string list"
  malloc_ok :: bool
  popen :: "string \<Rightarrow> string option"

text \<open>\<^verbatim>\<open>slurm_hostlist_shift\<close>: the first host, or \<^verbatim>\<open>NULL\<close> when the list is empty.\<close>

definition slurm_hostlist_shift :: "string list \<Rightarrow> string option" where
  "slurm_hostlist_shift hlist = (case hlist of [] \<Rightarrow> None | h # _ \<Rightarrow> Some h)"

subsection \<open>The launcher: \<^verbatim>\<open>_connect_node\<close>\<close>

definition connect_pattern :: string where
  "connect_pattern =
     STUNNEL_LIBEXEC_PROG @ '' -t %s -i %u.%u -cgw -s '' @ [dquote] @ ''%s'' @ [dquote]
       @ '' -o '' @ [dquote] @ ''%s'' @ [dquote] @ '' 2>/dev/null %s &''"

definition connect_node ::
  "env \<Rightarrow> config \<Rightarrow> string option \<Rightarrow> 32 word \<Rightarrow> 32 word \<Rightarrow> world \<Rightarrow> outcome" where
  "connect_node e cfg node jobid stepid w =
     (case node of
        None \<Rightarrow> Crashed w
      | Some n \<Rightarrow>
          (let expc_length = length connect_pattern + length n + 128
                 + length (ssh_cmd_or_default cfg)
                 + length (ssh_args_or_default cfg)
                 + length (helpertask_args_or_default cfg)
           in if \<not> malloc_ok e then Returned (- 1) w
              else
                (case snprintf expc_length connect_pattern
                        [ArgS n, ArgU jobid, ArgU stepid,
                         ArgS (ssh_cmd_or_default cfg),
                         ArgS (ssh_args_or_default cfg),
                         ArgS (helpertask_args_or_default cfg)] of
                   None \<Rightarrow> Crashed w
                 | Some (expc_cmd, _) \<Rightarrow>
                     (let w1 = record_popen expc_cmd
                                 (log_info (''tunnel: interactive mode : executing '' @ expc_cmd) w)
                      in case popen e expc_cmd of
                           None \<Rightarrow> Crashed w1
                         | Some out \<Rightarrow>
                             (case fscanf_255s out of
                                None \<Rightarrow>
                                  Returned (- 1)
                                    (log_error (''tunnel: unable to connect node '' @ n) w1)
                              | Some forward \<Rightarrow>
                                  Returned 0
                                    (log_info (''tunnel: forward is '' @ c_string forward
                                                 @ '' on node '' @ n) w1))))))"

subsection \<open>The node selector: \<^verbatim>\<open>_stunnel_connect_nodes\<close>\<close>

definition stunnel_connect_nodes ::
  "env \<Rightarrow> config \<Rightarrow> string \<Rightarrow> 32 word \<Rightarrow> 32 word \<Rightarrow> world \<Rightarrow> outcome" where
  "stunnel_connect_nodes e cfg nds jobid stepid w =
     (let hlist = slurm_hostlist_create e nds;
          host = slurm_hostlist_shift hlist
      in case connect_node e cfg host jobid stepid w of
           Crashed w' \<Rightarrow> Crashed w'
         | Returned _ w' \<Rightarrow> Returned 0 w')"

subsection \<open>The submission-side hook: \<^verbatim>\<open>slurm_spank_local_user_init\<close>\<close>

definition slurm_spank_local_user_init :: "env \<Rightarrow> config \<Rightarrow> world \<Rightarrow> outcome" where
  "slurm_spank_local_user_init e cfg w =
     (case item_job_id e of
        None \<Rightarrow> Returned (- 1) w
      | Some jobid \<Rightarrow>
     (case item_job_stepid e of
        None \<Rightarrow> Returned (- 1) w
      | Some stepid \<Rightarrow>
     (case slurm_load_job e jobid of
        None \<Rightarrow> Returned (- 3) (log_error ''stunnel: unable to get job infos'' w)
      | Some job_buffer \<Rightarrow>
          if record_count job_buffer \<noteq> 1
          then Returned (- 4) (log_error ''stunnel: job infos are invalid'' w)
          else
            (case job_array job_buffer of
               [] \<Rightarrow> Crashed w
             | job_ptr # _ \<Rightarrow>
                 (case nodes job_ptr of
                    None \<Rightarrow>
                      Returned (- 5)
                        (log_error ''stunnel: job has no allocated nodes defined'' w)
                  | Some nds \<Rightarrow> stunnel_connect_nodes e cfg nds jobid stepid w)))))"

subsection \<open>The teardown hook: \<^verbatim>\<open>slurm_spank_exit\<close>\<close>

text \<open>
  The pattern starts with the macro \<^verbatim>\<open>X11_LIBEXEC_PROG\<close>, which this file uses and does
  not define: the path of the helper is a parameter, \<open>prog\<close>.
\<close>

definition exit_pattern :: "string \<Rightarrow> string" where
  "exit_pattern prog = prog @ '' -i %u.%u -r 2>/dev/null''"

definition slurm_spank_exit :: "string \<Rightarrow> env \<Rightarrow> world \<Rightarrow> outcome" where
  "slurm_spank_exit prog e w =
     (if \<not> spank_remote e then Returned 0 w
      else
     (case item_job_id e of
        None \<Rightarrow> Returned (- 1) w
      | Some jobid \<Rightarrow>
     (case item_job_stepid e of
        None \<Rightarrow> Returned (- 1) w
      | Some stepid \<Rightarrow>
          (let expc_length = length (exit_pattern prog) + 128
           in if \<not> malloc_ok e then Crashed w
              else
                (case snprintf expc_length (exit_pattern prog) [ArgU jobid, ArgU stepid] of
                   None \<Rightarrow> Crashed w
                 | Some (expc_cmd, n) \<Rightarrow>
                     if n \<ge> expc_length
                     then Returned 0
                            (log_error ''x11: error while creating remove reference cmd'' w)
                     else
                       (case popen e expc_cmd of
                          None \<Rightarrow>
                            Returned 0
                              (log_error (''x11: unable to exec remove cmd '' @ [CHR 0x27]
                                            @ expc_cmd @ [CHR 0x27])
                                 (record_popen expc_cmd w))
                        | Some out \<Rightarrow> Returned 0 (record_popen expc_cmd w)))))))"

subsection \<open>Reading an outcome\<close>

definition status_of :: "outcome \<Rightarrow> int option" where
  "status_of r = (case r of Returned st _ \<Rightarrow> Some st | Crashed _ \<Rightarrow> None)"

definition final_world :: "outcome \<Rightarrow> world" where
  "final_world r = (case r of Returned _ w \<Rightarrow> w | Crashed w \<Rightarrow> w)"

subsection \<open>A concrete job\<close>

text \<open>
  Job 100, step 0, allocated \<^verbatim>\<open>nodeA\<close> and \<^verbatim>\<open>nodeB\<close>, on the submission side; the
  parameter is what the helper writes to its standard output (\<open>None\<close>: it cannot be
  started).
\<close>

definition scenario_env :: "string option \<Rightarrow> env" where
  "scenario_env child =
     \<lparr>spank_remote = False, item_job_id = Some 100, item_job_stepid = Some 0,
      slurm_load_job = (\<lambda>_. Some \<lparr>record_count = 1,
                                    job_array = [\<lparr>nodes = Some ''nodeA,nodeB''\<rparr>]\<rparr>),
      slurm_hostlist_create = (\<lambda>_. [''nodeA'', ''nodeB'']),
      malloc_ok = True,
      popen = (\<lambda>_. child)\<rparr>"

definition empty_world :: world where
  "empty_world = \<lparr>logs = [], popen_calls = []\<rparr>"

subsection \<open>The \<^verbatim>\<open>--tunnel\<close> option\<close>

text \<open>
  Modelled from the spec: the option callback \<^verbatim>\<open>_tunnel_opt_process\<close> is declared and
  entered in the option table \<^verbatim>\<open>spank_opts\<close>, and the file holds no definition of it. What
  follows is the parser of the specification's section 4.2: the value is a list of entries
  separated by commas, each entry two tokens separated by a colon, each token a non-empty
  run of decimal digits whose value is between 1 and 65535.
\<close>

text \<open>Modelled from the spec: the one error of the option parser.\<close>

datatype OptionError = InvalidFormat

text \<open>
  Modelled from the spec: the data model's \<^verbatim>\<open>TunnelSpec\<close>, the ordered pairs of a
  submission-side port and an execution-side port, each a 16-bit number.
\<close>

type_synonym TunnelSpec = "(16 word \<times> 16 word) list"

text \<open>Modelled from the spec: a numeric token is made of decimal digits.\<close>

definition is_digit :: "char \<Rightarrow> bool" where
  "is_digit c = (c \<in> set ''0123456789'')"

text \<open>Modelled from the spec: the integer a numeric token parses to.\<close>

definition digit_val :: "char \<Rightarrow> nat" where
  "digit_val c = of_char c - 48"

text \<open>Modelled from the spec: the value of a run of digits, most significant first.\<close>

definition dec_val :: "string \<Rightarrow> nat" where
  "dec_val tok = foldl (\<lambda>acc c. 10 * acc + digit_val c) 0 tok"

text \<open>Modelled from the spec: splitting at every occurrence of the separator.\<close>

fun split_on :: "char \<Rightarrow> string \<Rightarrow> string list" where
  "split_on sep [] = [[]]"
| "split_on sep (c # cs) =
     (if c = sep then [] # split_on sep cs
      else (case split_on sep cs of
              [] \<Rightarrow> [[c]]
            | f # fs \<Rightarrow> (c # f) # fs))"

text \<open>Modelled from the spec: a port is an integer in the range 1 to 65535.\<close>

definition parse_port :: "string \<Rightarrow> 16 word option" where
  "parse_port tok =
     (if tok \<noteq> [] \<and> list_all is_digit tok \<and> 1 \<le> dec_val tok \<and> dec_val tok \<le> 65535
      then Some (of_nat (dec_val tok)) else None)"

text \<open>Modelled from the spec: a pair splits into exactly two tokens on the colon.\<close>

definition parse_pair :: "string \<Rightarrow> (16 word \<times> 16 word) option" where
  "parse_pair entry =
     (case split_on (CHR '':'') entry of
        [a, b] \<Rightarrow>
          (case parse_port a of
             None \<Rightarrow> None
           | Some x \<Rightarrow> (case parse_port b of None \<Rightarrow> None | Some y \<Rightarrow> Some (x, y)))
      | _ \<Rightarrow> None)"

text \<open>
  Modelled from the spec: every entry must be a valid pair; the pairs are returned in the
  order of the entries.
\<close>

fun parse_pairs :: "string list \<Rightarrow> TunnelSpec option" where
  "parse_pairs [] = Some []"
| "parse_pairs (entry # rest) =
     (case parse_pair entry of
        None \<Rightarrow> None
      | Some p \<Rightarrow> map_option ((#) p) (parse_pairs rest))"

text \<open>
  Modelled from the spec: \<^verbatim>\<open>parseTunnelOption\<close>, which fails on an absent value and on
  any entry that is not a valid pair.
\<close>

definition parseTunnelOption :: "string option \<Rightarrow> OptionError + TunnelSpec" where
  "parseTunnelOption optionValue =
     (case optionValue of
        None \<Rightarrow> Inl InvalidFormat
      | Some v \<Rightarrow>
          (case parse_pairs (split_on (CHR '','') v) of
             None \<Rightarrow> Inl InvalidFormat
           | Some spec \<Rightarrow> Inr spec))"

text \<open>
  Modelled from the spec: the option-parse step \<^verbatim>\<open>_tunnel_opt_process\<close>, which reports
  failure (a non-zero status, here \<open>- 1\<close>) and stores nothing when the value is
  invalid, and otherwise returns 0 and stores the parsed pairs.
\<close>

definition tunnel_opt_process :: "string option \<Rightarrow> int \<times> TunnelSpec option" where
  "tunnel_opt_process optarg =
     (case parseTunnelOption optarg of
        Inl _ \<Rightarrow> (- 1, None)
      | Inr spec \<Rightarrow> (0, Some spec))"

text \<open>
  Modelled from the spec: entries written one after the other with the separator between
  them, the inverse of \<^const>\<open>split_on\<close>.
\<close>

fun join_with :: "char \<Rightarrow> string list \<Rightarrow> string" where
  "join_with sep [] = []"
| "join_with sep [e] = e"
| "join_with sep (e # e' # es) = e @ sep # join_with sep (e' # es)"

text \<open>
  Modelled from the spec: what a valid option value is, stated on its text. The value is
  one or more entries joined by commas; each entry is two non-empty runs of decimal digits
  joined by a colon, and each run is the decimal notation of its port, which is at least 1
  (and at most 65535, as a 16-bit value).
\<close>

definition valid_port_text :: "string \<Rightarrow> 16 word \<Rightarrow> bool" where
  "valid_port_text tok p =
     (tok \<noteq> [] \<and> list_all is_digit tok \<and> dec_val tok = unat p \<and> 1 \<le> unat p)"

definition valid_pair_text :: "string \<Rightarrow> 16 word \<times> 16 word \<Rightarrow> bool" where
  "valid_pair_text entry pq =
     (\<exists>a b. entry = a @ '':'' @ b \<and> valid_port_text a (fst pq) \<and> valid_port_text b (snd pq))"

definition valid_tunnel_value :: "string option \<Rightarrow> TunnelSpec \<Rightarrow> bool" where
  "valid_tunnel_value optionValue spec =
     (\<exists>entries. optionValue = Some (join_with (CHR '','') entries) \<and> entries \<noteq> []
        \<and> list_all2 valid_pair_text entries spec)"

section \<open>Properties\<close>

subsection \<open>Auxiliary facts\<close>

lemma world_simps:
  "popen_calls (record_popen c w) = popen_calls w @ [c]"
  "logs (record_popen c w) = logs w"
  "popen_calls (log_info m w) = popen_calls w"
  "popen_calls (log_error m w) = popen_calls w"
  "logs (log_info m w) = logs w @ [LInfo m]"
  "logs (log_error m w) = logs w @ [LError m]"
  by (simp_all add: record_popen_def log_info_def log_error_def)

lemma outcome_simps:
  "status_of (Returned st w) = Some st"
  "status_of (Crashed w) = None"
  "final_world (Returned st w) = w"
  "final_world (Crashed w) = w"
  by (simp_all add: status_of_def final_world_def)

lemma format_plain_Cons:
  "c \<noteq> CHR ''%'' \<Longrightarrow> format (c # cs) args = map_option ((#) c) (format cs args)"
  by (cases cs) simp_all

lemma format_plain_prefix:
  "CHR ''%'' \<notin> set p \<Longrightarrow> format (p @ q) args = map_option ((@) p) (format q args)"
proof (induction p)
  case Nil
  then show ?case by (simp add: option.map_ident)
next
  case (Cons c p)
  then have c: "c \<noteq> CHR ''%''" and p: "CHR ''%'' \<notin> set p" by auto
  show ?case
    using Cons.IH [OF p]
    by (simp add: format_plain_Cons [OF c] option.map_comp comp_def)
qed

text \<open>A 32-bit value prints in at most ten digits.\<close>

lemma dec_length_bound: "0 < k \<Longrightarrow> n < 10 ^ k \<Longrightarrow> length (dec n) \<le> k"
proof (induction n arbitrary: k rule: dec.induct)
  case (1 n)
  show ?case
  proof (cases "n < 10")
    case True
    then show ?thesis using "1.prems" by (simp add: dec.simps)
  next
    case False
    then obtain k' where k: "k = Suc k'" and k': "0 < k'"
      using "1.prems" by (cases k; cases "k - 1") auto
    have "n div 10 < 10 ^ k'"
      using "1.prems" k by (simp add: less_mult_imp_div_less mult.commute)
    then have "length (dec (n div 10)) \<le> k'"
      using "1.IH" False k' by simp
    then show ?thesis using False k by (subst dec.simps) simp
  qed
qed

lemma dec_u32_length: "length (dec (unat (v :: 32 word))) \<le> 10"
proof -
  have "unat v < 2 ^ 32" using unsigned_less [of v] by simp
  then have "unat v < 10 ^ 10" by simp
  then show ?thesis by (intro dec_length_bound) simp_all
qed

lemma dec_100: "dec 100 = ''100''"
  by (simp add: dec.simps digit_char_def)

lemma dec_0: "dec 0 = ''0''"
  by (simp add: dec.simps digit_char_def)

text \<open>The loops of \<^verbatim>\<open>fscanf\<close>, in closed form.\<close>

lemma skip_space_dropWhile: "skip_space s = dropWhile isspace s"
  by (induction s) simp_all

lemma scan_token_take: "scan_token n s = take n (takeWhile (\<lambda>c. \<not> isspace c) s)"
  by (induction n s rule: scan_token.induct) simp_all

subsection \<open>The rendered launch command\<close>

lemma connect_format:
  "format connect_pattern [ArgS n, ArgU j, ArgU s, ArgS a, ArgS b, ArgS c] =
     Some (STUNNEL_LIBEXEC_PROG @ '' -t '' @ n @ '' -i '' @ dec (unat j) @ ''.'' @ dec (unat s)
           @ '' -cgw -s '' @ [dquote] @ a @ [dquote] @ '' -o '' @ [dquote] @ b @ [dquote]
           @ '' 2>/dev/null '' @ c @ '' &'')"
  by (simp add: connect_pattern_def STUNNEL_LIBEXEC_PROG_def dquote_def)

text \<open>The buffer \<^verbatim>\<open>_connect_node\<close> allocates always holds the whole command.\<close>

lemma connect_snprintf:
  "snprintf (length connect_pattern + length n + 128 + length a + length b + length c)
      connect_pattern [ArgS n, ArgU j, ArgU s, ArgS a, ArgS b, ArgS c] =
   Some (STUNNEL_LIBEXEC_PROG @ '' -t '' @ n @ '' -i '' @ dec (unat j) @ ''.'' @ dec (unat s)
           @ '' -cgw -s '' @ [dquote] @ a @ [dquote] @ '' -o '' @ [dquote] @ b @ [dquote]
           @ '' 2>/dev/null '' @ c @ '' &'',
         length STUNNEL_LIBEXEC_PROG + length n + length (dec (unat j)) + length (dec (unat s))
           + length a + length b + length c + 41)"
proof -
  have lp: "length connect_pattern = length STUNNEL_LIBEXEC_PROG + 53"
    by (simp add: connect_pattern_def)
  show ?thesis
    using dec_u32_length [of j] dec_u32_length [of s]
    by (simp add: snprintf_def connect_format lp)
qed

lemma connect_node_unfold:
  assumes "malloc_ok e"
  shows "connect_node e cfg (Some n) j s w =
    (let cmd = STUNNEL_LIBEXEC_PROG @ '' -t '' @ n @ '' -i '' @ dec (unat j) @ ''.''
           @ dec (unat s)
           @ '' -cgw -s '' @ [dquote] @ ssh_cmd_or_default cfg @ [dquote]
           @ '' -o '' @ [dquote] @ ssh_args_or_default cfg @ [dquote]
           @ '' 2>/dev/null '' @ helpertask_args_or_default cfg @ '' &'';
         w1 = record_popen cmd (log_info (''tunnel: interactive mode : executing '' @ cmd) w)
     in case popen e cmd of
          None \<Rightarrow> Crashed w1
        | Some out \<Rightarrow>
            (case fscanf_255s out of
               None \<Rightarrow> Returned (- 1) (log_error (''tunnel: unable to connect node '' @ n) w1)
             | Some forward \<Rightarrow>
                 Returned 0
                   (log_info (''tunnel: forward is '' @ c_string forward @ '' on node '' @ n)
                      w1)))"
  using assms unfolding connect_node_def Let_def
  by (simp only: connect_snprintf option.case prod.case if_False not_True_eq_False simp_thms)

lemma connect_node_popen_calls:
  assumes "malloc_ok e"
  shows "popen_calls (final_world (connect_node e cfg (Some n) j s w)) =
    popen_calls w @
      [STUNNEL_LIBEXEC_PROG @ '' -t '' @ n @ '' -i '' @ dec (unat j) @ ''.'' @ dec (unat s)
           @ '' -cgw -s '' @ [dquote] @ ssh_cmd_or_default cfg @ [dquote]
           @ '' -o '' @ [dquote] @ ssh_args_or_default cfg @ [dquote]
           @ '' 2>/dev/null '' @ helpertask_args_or_default cfg @ '' &'']"
  unfolding connect_node_unfold [OF assms] Let_def
  by (simp add: world_simps outcome_simps split: option.split)

lemmas default_defs =
  STUNNEL_LIBEXEC_PROG_def ssh_cmd_or_default_def ssh_args_or_default_def
  helpertask_args_or_default_def DEFAULT_SSH_CMD_def DEFAULT_SSH_ARGS_def
  DEFAULT_HELPERTASK_ARGS_def

lemma scenario_env_simps:
  "malloc_ok (scenario_env child)"
  "popen (scenario_env child) c = child"
  "item_job_id (scenario_env child) = Some 100"
  "item_job_stepid (scenario_env child) = Some 0"
  "\<not> spank_remote (scenario_env child)"
  "slurm_hostlist_create (scenario_env child) ns = [''nodeA'', ''nodeB'']"
  by (simp_all add: scenario_env_def)

text \<open>
  C2, as amended. Whenever \<^verbatim>\<open>_connect_node\<close> gets a node and its buffer, the command line
  it hands to \<^verbatim>\<open>popen\<close> is the helper's path followed by the node, the job id and the step
  id in decimal, the fixed flags \<^verbatim>\<open>-cgw\<close>, the ssh command and the ssh arguments between
  double quotes, and the helper-task arguments, each configuration string replaced by its
  compiled-in default (\<^verbatim>\<open>ssh\<close>, empty, empty) when it is unset. Nothing else enters the
  command: the launcher takes no port pairs and renders no forwarding directive.
\<close>

theorem launch_command_rendered:
  assumes "malloc_ok e"
  shows "popen_calls (final_world (connect_node e cfg (Some node) jobid stepid w)) =
    popen_calls w @
      [''/usr/libexec/stunnel -t '' @ node @ '' -i '' @ dec (unat jobid) @ ''.''
         @ dec (unat stepid) @ '' -cgw -s '' @ [dquote]
         @ (case ssh_cmd cfg of None \<Rightarrow> ''ssh'' | Some c \<Rightarrow> c) @ [dquote]
         @ '' -o '' @ [dquote] @ (case ssh_args cfg of None \<Rightarrow> [] | Some a \<Rightarrow> a) @ [dquote]
         @ '' 2>/dev/null '' @ (case helpertask_args cfg of None \<Rightarrow> [] | Some h \<Rightarrow> h)
         @ '' &'']"
  using connect_node_popen_calls [OF assms, of cfg node jobid stepid w]
  by (simp add: default_defs cong: option.case_cong)

theorem launch_command_rendered_witness:
  "malloc_ok (scenario_env (Some ''54321'')) \<and>
   popen_calls (final_world
      (connect_node (scenario_env (Some ''54321'')) initial_config (Some ''nodeA'') 100 0
         empty_world)) =
     [''/usr/libexec/stunnel -t nodeA -i 100.0 -cgw -s '' @ [dquote] @ ''ssh'' @ [dquote]
        @ '' -o '' @ [dquote, dquote] @ '' 2>/dev/null  &'']"
proof -
  have m: "malloc_ok (scenario_env (Some ''54321''))" by (simp add: scenario_env_simps)
  show ?thesis
    using m launch_command_rendered [OF m, of initial_config "''nodeA''" 100 0 empty_world]
    by (simp add: initial_config_def empty_world_def dec_100 dec_0)
qed

text \<open>
  C2 as stated fails: for the port pair (8080, 80) of the specification's scenario, the
  command rendered for node \<^verbatim>\<open>nodeA\<close>, job 100, step 0 holds no forwarding directive; the
  text \<^verbatim>\<open>8080\<close> does not occur in it.
\<close>

theorem launch_command_no_forwarding_counterexample:
  "popen_calls (final_world
      (connect_node (scenario_env (Some ''54321'')) initial_config (Some ''nodeA'') 100 0
         empty_world)) =
     [''/usr/libexec/stunnel -t nodeA -i 100.0 -cgw -s '' @ [dquote] @ ''ssh'' @ [dquote]
        @ '' -o '' @ [dquote, dquote] @ '' 2>/dev/null  &'']
   \<and> \<not> sublist ''8080''
        (''/usr/libexec/stunnel -t nodeA -i 100.0 -cgw -s '' @ [dquote] @ ''ssh'' @ [dquote]
        @ '' -o '' @ [dquote, dquote] @ '' 2>/dev/null  &'')"
proof -
  have m: "malloc_ok (scenario_env (Some ''54321''))" by (simp add: scenario_env_simps)
  have "popen_calls (final_world
      (connect_node (scenario_env (Some ''54321'')) initial_config (Some ''nodeA'') 100 0
         empty_world)) =
     [''/usr/libexec/stunnel -t nodeA -i 100.0 -cgw -s '' @ [dquote] @ ''ssh'' @ [dquote]
        @ '' -o '' @ [dquote, dquote] @ '' 2>/dev/null  &'']"
    using connect_node_popen_calls [OF m, of initial_config "''nodeA''" 100 0 empty_world]
    by (simp add: initial_config_def empty_world_def dec_100 dec_0 default_defs)
  moreover have "\<not> sublist ''8080''
        (''/usr/libexec/stunnel -t nodeA -i 100.0 -cgw -s '' @ [dquote] @ ''ssh'' @ [dquote]
        @ '' -o '' @ [dquote, dquote] @ '' 2>/dev/null  &'')"
    by (simp add: dquote_def sublist_Cons_right)
  ultimately show ?thesis by simp
qed

subsection \<open>No escaping of substituted values\<close>

text \<open>
  C5, as amended. The renderer inserts every substituted string byte for byte: the node
  and the helper-task arguments bare, the ssh command and the ssh arguments between two
  double-quote characters, with nothing escaped. The text around a value does not depend
  on the value.
\<close>

theorem substituted_values_verbatim:
  assumes "malloc_ok e"
  shows
    "(\<exists>post. \<forall>v.
        popen_calls (final_world (connect_node e cfg (Some v) jobid stepid w)) =
          popen_calls w @ [''/usr/libexec/stunnel -t '' @ v @ post])
     \<and> (\<exists>pre post. \<forall>v.
        popen_calls (final_world
            (connect_node e (cfg\<lparr>ssh_cmd := Some v\<rparr>) (Some node) jobid stepid w)) =
          popen_calls w @ [pre @ '' -s '' @ [dquote] @ v @ [dquote] @ post])
     \<and> (\<exists>pre post. \<forall>v.
        popen_calls (final_world
            (connect_node e (cfg\<lparr>ssh_args := Some v\<rparr>) (Some node) jobid stepid w)) =
          popen_calls w @ [pre @ '' -o '' @ [dquote] @ v @ [dquote] @ post])
     \<and> (\<exists>pre. \<forall>v.
        popen_calls (final_world
            (connect_node e (cfg\<lparr>helpertask_args := Some v\<rparr>) (Some node) jobid stepid w)) =
          popen_calls w @ [pre @ '' 2>/dev/null '' @ v @ '' &''])"
proof (intro conjI)
  show "\<exists>post. \<forall>v.
        popen_calls (final_world (connect_node e cfg (Some v) jobid stepid w)) =
          popen_calls w @ [''/usr/libexec/stunnel -t '' @ v @ post]"
    by (rule exI [where x = "'' -i '' @ dec (unat jobid) @ ''.'' @ dec (unat stepid)
           @ '' -cgw -s '' @ [dquote] @ ssh_cmd_or_default cfg @ [dquote]
           @ '' -o '' @ [dquote] @ ssh_args_or_default cfg @ [dquote]
           @ '' 2>/dev/null '' @ helpertask_args_or_default cfg @ '' &''"])
       (simp add: connect_node_popen_calls [OF assms] STUNNEL_LIBEXEC_PROG_def)
next
  show "\<exists>pre post. \<forall>v.
        popen_calls (final_world
            (connect_node e (cfg\<lparr>ssh_cmd := Some v\<rparr>) (Some node) jobid stepid w)) =
          popen_calls w @ [pre @ '' -s '' @ [dquote] @ v @ [dquote] @ post]"
    by (rule exI [where x = "STUNNEL_LIBEXEC_PROG @ '' -t '' @ node @ '' -i ''
           @ dec (unat jobid) @ ''.'' @ dec (unat stepid) @ '' -cgw''"],
        rule exI [where x = "'' -o '' @ [dquote] @ ssh_args_or_default cfg @ [dquote]
           @ '' 2>/dev/null '' @ helpertask_args_or_default cfg @ '' &''"])
       (simp add: connect_node_popen_calls [OF assms] ssh_cmd_or_default_def
          ssh_args_or_default_def helpertask_args_or_default_def)
next
  show "\<exists>pre post. \<forall>v.
        popen_calls (final_world
            (connect_node e (cfg\<lparr>ssh_args := Some v\<rparr>) (Some node) jobid stepid w)) =
          popen_calls w @ [pre @ '' -o '' @ [dquote] @ v @ [dquote] @ post]"
    by (rule exI [where x = "STUNNEL_LIBEXEC_PROG @ '' -t '' @ node @ '' -i ''
           @ dec (unat jobid) @ ''.'' @ dec (unat stepid) @ '' -cgw -s '' @ [dquote]
           @ ssh_cmd_or_default cfg @ [dquote]"],
        rule exI [where x = "'' 2>/dev/null '' @ helpertask_args_or_default cfg @ '' &''"])
       (simp add: connect_node_popen_calls [OF assms] ssh_cmd_or_default_def
          ssh_args_or_default_def helpertask_args_or_default_def)
next
  show "\<exists>pre. \<forall>v.
        popen_calls (final_world
            (connect_node e (cfg\<lparr>helpertask_args := Some v\<rparr>) (Some node) jobid stepid w)) =
          popen_calls w @ [pre @ '' 2>/dev/null '' @ v @ '' &'']"
    by (rule exI [where x = "STUNNEL_LIBEXEC_PROG @ '' -t '' @ node @ '' -i ''
           @ dec (unat jobid) @ ''.'' @ dec (unat stepid) @ '' -cgw -s '' @ [dquote]
           @ ssh_cmd_or_default cfg @ [dquote] @ '' -o '' @ [dquote]
           @ ssh_args_or_default cfg @ [dquote]"])
       (simp add: connect_node_popen_calls [OF assms] ssh_cmd_or_default_def
          ssh_args_or_default_def helpertask_args_or_default_def)
qed

theorem substituted_values_verbatim_witness:
  "malloc_ok (scenario_env (Some ''54321'')) \<and>
   (\<exists>post. \<forall>v.
        popen_calls (final_world
            (connect_node (scenario_env (Some ''54321'')) initial_config (Some v) 100 0
               empty_world)) =
          [''/usr/libexec/stunnel -t '' @ v @ post])"
proof -
  have m: "malloc_ok (scenario_env (Some ''54321''))" by (simp add: scenario_env_simps)
  show ?thesis
    using m substituted_values_verbatim [OF m, of initial_config 100 0 empty_world]
    by (simp add: empty_world_def)
qed

text \<open>
  C5 as stated fails: a double quote inside a configured string is not escaped, so a
  value can move the boundary between two fields. The ssh command \<^verbatim>\<open>a" -o "b\<close> with the
  ssh arguments \<^verbatim>\<open>c\<close> renders the same command line as the ssh command \<^verbatim>\<open>a\<close> with the
  ssh arguments \<^verbatim>\<open>b" -o "c\<close>.
\<close>

theorem unescaped_quote_counterexample:
  "popen_calls (final_world
      (connect_node (scenario_env (Some ''54321''))
         \<lparr>ssh_cmd = Some (''a'' @ [dquote] @ '' -o '' @ [dquote] @ ''b''),
          ssh_args = Some ''c'', helpertask_args = None\<rparr>
         (Some ''nodeA'') 100 0 empty_world))
   = popen_calls (final_world
      (connect_node (scenario_env (Some ''54321''))
         \<lparr>ssh_cmd = Some ''a'',
          ssh_args = Some (''b'' @ [dquote] @ '' -o '' @ [dquote] @ ''c''),
          helpertask_args = None\<rparr>
         (Some ''nodeA'') 100 0 empty_world))
   \<and> ''a'' @ [dquote] @ '' -o '' @ [dquote] @ ''b'' \<noteq> ''a''"
  by (simp add: connect_node_popen_calls scenario_env_simps default_defs)

subsection \<open>The token read from the helper\<close>

lemma fscanf_255s_closed:
  "fscanf_255s out =
     (if list_all isspace out then None
      else Some (take 255 (takeWhile (\<lambda>c. \<not> isspace c) (dropWhile isspace out))))"
proof (cases "list_all isspace out")
  case True
  then have d: "dropWhile isspace out = []"
    by (simp add: list_all_iff)
  show ?thesis
    unfolding fscanf_255s_def skip_space_dropWhile d using True by simp
next
  case False
  then obtain c cs where d: "dropWhile isspace out = c # cs"
    by (cases "dropWhile isspace out") (auto simp: list_all_iff)
  show ?thesis
    unfolding fscanf_255s_def skip_space_dropWhile scan_token_take d using False by simp
qed

lemma token_shape:
  assumes "\<not> list_all isspace out"
  defines "tok \<equiv> take 255 (takeWhile (\<lambda>c. \<not> isspace c) (dropWhile isspace out))"
  shows "tok \<noteq> []" and "length tok \<le> 255" and "\<not> list_ex isspace tok"
proof -
  obtain c cs where d: "dropWhile isspace out = c # cs"
    using assms(1) by (cases "dropWhile isspace out") (auto simp: list_all_iff)
  then have "\<not> isspace c" using hd_dropWhile [of isspace out] by auto
  then show "tok \<noteq> []" using d by (simp add: tok_def)
  show "length tok \<le> 255" by (simp add: tok_def)
  have "set tok \<subseteq> set (takeWhile (\<lambda>c. \<not> isspace c) (dropWhile isspace out))"
    unfolding tok_def by (rule set_take_subset)
  then show "\<not> list_ex isspace tok"
    by (auto simp: list_ex_iff dest: set_takeWhileD)
qed

text \<open>
  C4, as amended. When the helper was started, \<^verbatim>\<open>_connect_node\<close> reads one token:
  the first run of non-space characters of the helper's output, cut at 255 characters. If
  there is one, it is written to the log as a C string, that is up to its first NUL byte
  if it holds one, never parsed as a number, and the status is 0; if the output holds
  nothing but white space, an error is logged and the status is \<open>- 1\<close>. The token is
  not part of the result.
\<close>

theorem launch_reads_one_token:
  assumes "malloc_ok e" and "\<And>c. popen e c = Some out"
  shows
    "(list_all isspace out \<longrightarrow>
        status_of (connect_node e cfg (Some node) jobid stepid w) = Some (- 1)
        \<and> last (logs (final_world (connect_node e cfg (Some node) jobid stepid w)))
            = LError (''tunnel: unable to connect node '' @ node))
     \<and> (\<not> list_all isspace out \<longrightarrow>
        status_of (connect_node e cfg (Some node) jobid stepid w) = Some 0
        \<and> (\<exists>tok. tok = take 255 (takeWhile (\<lambda>c. \<not> isspace c) (dropWhile isspace out))
              \<and> tok \<noteq> [] \<and> length tok \<le> 255 \<and> \<not> list_ex isspace tok
              \<and> last (logs (final_world (connect_node e cfg (Some node) jobid stepid w)))
                  = LInfo (''tunnel: forward is '' @ c_string tok @ '' on node '' @ node)))"
proof (intro conjI impI)
  assume sp: "list_all isspace out"
  then have f: "fscanf_255s out = None" by (simp add: fscanf_255s_closed)
  show "status_of (connect_node e cfg (Some node) jobid stepid w) = Some (- 1)"
    unfolding connect_node_unfold [OF assms(1)] Let_def
    by (simp add: assms(2) f outcome_simps)
  show "last (logs (final_world (connect_node e cfg (Some node) jobid stepid w)))
            = LError (''tunnel: unable to connect node '' @ node)"
    unfolding connect_node_unfold [OF assms(1)] Let_def
    by (simp add: assms(2) f outcome_simps world_simps)
next
  assume ns: "\<not> list_all isspace out"
  then have f: "fscanf_255s out
      = Some (take 255 (takeWhile (\<lambda>c. \<not> isspace c) (dropWhile isspace out)))"
    by (simp add: fscanf_255s_closed)
  show "status_of (connect_node e cfg (Some node) jobid stepid w) = Some 0"
    unfolding connect_node_unfold [OF assms(1)] Let_def
    by (simp add: assms(2) f outcome_simps)
  have "last (logs (final_world (connect_node e cfg (Some node) jobid stepid w)))
      = LInfo (''tunnel: forward is ''
               @ c_string (take 255 (takeWhile (\<lambda>c. \<not> isspace c) (dropWhile isspace out)))
               @ '' on node '' @ node)"
    unfolding connect_node_unfold [OF assms(1)] Let_def
    by (simp add: assms(2) f outcome_simps world_simps)
  then show "\<exists>tok. tok = take 255 (takeWhile (\<lambda>c. \<not> isspace c) (dropWhile isspace out))
              \<and> tok \<noteq> [] \<and> length tok \<le> 255 \<and> \<not> list_ex isspace tok
              \<and> last (logs (final_world (connect_node e cfg (Some node) jobid stepid w)))
                  = LInfo (''tunnel: forward is '' @ c_string tok @ '' on node '' @ node)"
    using token_shape [OF ns] by simp
qed

theorem launch_reads_one_token_witness:
  "malloc_ok (scenario_env (Some '' 54321 extra'')) \<and>
   popen (scenario_env (Some '' 54321 extra'')) ''any'' = Some '' 54321 extra'' \<and>
   status_of (connect_node (scenario_env (Some '' 54321 extra'')) initial_config
                (Some ''nodeA'') 100 0 empty_world) = Some 0 \<and>
   last (logs (final_world (connect_node (scenario_env (Some '' 54321 extra''))
                initial_config (Some ''nodeA'') 100 0 empty_world)))
     = LInfo ''tunnel: forward is 54321 on node nodeA'' \<and>
   status_of (connect_node (scenario_env (Some (''ab'' @ [CHR 0x00] @ ''cd''))) initial_config
                (Some ''nodeA'') 100 0 empty_world) = Some 0 \<and>
   last (logs (final_world (connect_node (scenario_env (Some (''ab'' @ [CHR 0x00] @ ''cd'')))
                initial_config (Some ''nodeA'') 100 0 empty_world)))
     = LInfo ''tunnel: forward is ab on node nodeA''"
proof -
  have m: "malloc_ok (scenario_env child)" for child
    by (simp add: scenario_env_simps)
  have p: "\<And>c. popen (scenario_env (Some out)) c = Some out" for out
    by (simp add: scenario_env_simps)
  have a: "status_of (connect_node (scenario_env (Some '' 54321 extra'')) initial_config
                (Some ''nodeA'') 100 0 empty_world) = Some 0 \<and>
   last (logs (final_world (connect_node (scenario_env (Some '' 54321 extra''))
                initial_config (Some ''nodeA'') 100 0 empty_world)))
     = LInfo ''tunnel: forward is 54321 on node nodeA''"
    using launch_reads_one_token [OF m p, of "'' 54321 extra''" initial_config "''nodeA''"
        100 0 empty_world]
    by (simp add: isspace_def c_string_def)
  have b: "status_of (connect_node (scenario_env (Some (''ab'' @ [CHR 0x00] @ ''cd'')))
                initial_config (Some ''nodeA'') 100 0 empty_world) = Some 0 \<and>
   last (logs (final_world (connect_node (scenario_env (Some (''ab'' @ [CHR 0x00] @ ''cd'')))
                initial_config (Some ''nodeA'') 100 0 empty_world)))
     = LInfo ''tunnel: forward is ab on node nodeA''"
    using launch_reads_one_token [OF m p, of "''ab'' @ [CHR 0x00] @ ''cd''" initial_config
        "''nodeA''" 100 0 empty_world]
    by (simp add: isspace_def c_string_def)
  show ?thesis using a b m p by simp
qed

text \<open>
  C4 as stated fails: the token is not the result of the launch. The helper printing
  \<^verbatim>\<open>54321\<close> and the helper printing \<^verbatim>\<open>no-port\<close> both give the status 0.
\<close>

theorem launch_result_is_not_the_port_counterexample:
  "status_of (connect_node (scenario_env (Some ''54321'')) initial_config
                (Some ''nodeA'') 100 0 empty_world) = Some 0
   \<and> status_of (connect_node (scenario_env (Some ''no-port'')) initial_config
                (Some ''nodeA'') 100 0 empty_world) = Some 0"
  by (simp add: connect_node_unfold scenario_env_simps fscanf_255s_closed isspace_def
      outcome_simps Let_def)

subsection \<open>A helper that cannot be started\<close>

text \<open>
  C7 fails on the code. When \<^verbatim>\<open>popen\<close> returns \<^verbatim>\<open>NULL\<close>, \<^verbatim>\<open>_connect_node\<close> passes the
  \<^verbatim>\<open>NULL\<close> stream to \<^verbatim>\<open>fscanf\<close>: no status is returned and no error is logged. The only
  log line is the one written before the call.
\<close>

theorem spawn_failure_crashes:
  "connect_node (scenario_env None) initial_config (Some ''nodeA'') 100 0 empty_world =
     Crashed
       \<lparr>logs = [LInfo (''tunnel: interactive mode : executing /usr/libexec/stunnel -t nodeA''
                        @ '' -i 100.0 -cgw -s '' @ [dquote] @ ''ssh'' @ [dquote] @ '' -o ''
                        @ [dquote, dquote] @ '' 2>/dev/null  &'')],
        popen_calls = [''/usr/libexec/stunnel -t nodeA -i 100.0 -cgw -s '' @ [dquote]
                        @ ''ssh'' @ [dquote] @ '' -o '' @ [dquote, dquote]
                        @ '' 2>/dev/null  &'']\<rparr>"
  by (simp add: connect_node_unfold scenario_env_simps Let_def default_defs initial_config_def
      empty_world_def dec_100 dec_0 record_popen_def log_info_def)

subsection \<open>The submission-side hook\<close>

lemma stunnel_connect_nodes_status:
  "status_of (stunnel_connect_nodes e cfg ns jobid stepid w) = None
   \<or> status_of (stunnel_connect_nodes e cfg ns jobid stepid w) = Some 0"
  by (simp add: stunnel_connect_nodes_def Let_def outcome_simps split: outcome.split)

lemma stunnel_connect_nodes_no_token:
  assumes "malloc_ok e" and "\<And>c. popen e c = Some out" and "list_all isspace out"
    and "slurm_hostlist_create e ns = h # hs"
  shows "status_of (stunnel_connect_nodes e cfg ns jobid stepid w) = Some 0"
    and "last (logs (final_world (stunnel_connect_nodes e cfg ns jobid stepid w)))
           = LError (''tunnel: unable to connect node '' @ h)"
proof -
  have f: "fscanf_255s out = None" using assms(3) by (simp add: fscanf_255s_closed)
  show "status_of (stunnel_connect_nodes e cfg ns jobid stepid w) = Some 0"
    unfolding stunnel_connect_nodes_def slurm_hostlist_shift_def assms(4) Let_def
      list.case connect_node_unfold [OF assms(1)]
    by (simp add: assms(2) f outcome_simps)
  show "last (logs (final_world (stunnel_connect_nodes e cfg ns jobid stepid w)))
           = LError (''tunnel: unable to connect node '' @ h)"
    unfolding stunnel_connect_nodes_def slurm_hostlist_shift_def assms(4) Let_def
      list.case connect_node_unfold [OF assms(1)]
    by (simp add: assms(2) f outcome_simps world_simps)
qed

lemma local_user_init_resolved:
  assumes "item_job_id e = Some jobid" and "item_job_stepid e = Some stepid"
    and "slurm_load_job e jobid = Some jb" and "record_count jb = 1"
    and "job_array jb = jp # rest" and "nodes jp = Some ns"
  shows "slurm_spank_local_user_init e cfg w = stunnel_connect_nodes e cfg ns jobid stepid w"
  using assms by (simp add: slurm_spank_local_user_init_def)

lemma stunnel_connect_nodes_returned:
  assumes "connect_node e cfg (slurm_hostlist_shift (slurm_hostlist_create e ns)) jobid stepid w
             = Returned st w'"
  shows "stunnel_connect_nodes e cfg ns jobid stepid w = Returned 0 w'"
  using assms by (simp add: stunnel_connect_nodes_def Let_def)

lemma stunnel_connect_nodes_no_buffer:
  assumes "\<not> malloc_ok e" and "slurm_hostlist_create e ns = h # hs"
  shows "stunnel_connect_nodes e cfg ns jobid stepid w = Returned 0 w"
  using assms
  by (simp add: stunnel_connect_nodes_def slurm_hostlist_shift_def connect_node_def Let_def)

text \<open>
  C3, as amended. Once the job record is resolved, a status returned by \<^verbatim>\<open>_connect_node\<close>
  does not reach the caller: whatever that status is, the hook returns 0 and leaves the
  log as the launcher left it. So the hook returns 0 when the command buffer cannot be
  allocated, and when the helper prints no token, which leaves an error in the log. A
  failure to resolve the job context does reach the caller, as a negative status:
  \<open>- 1\<close> when the job id or the step id cannot be read, \<open>- 3\<close> when the job cannot be
  loaded, \<open>- 4\<close> when the record count is not 1, \<open>- 5\<close> when the record has no node
  list; the last three are logged.
\<close>

theorem local_user_init_status:
  "(item_job_id e = None \<longrightarrow> slurm_spank_local_user_init e cfg w = Returned (- 1) w)
   \<and> (item_job_id e = Some jobid \<and> item_job_stepid e = None \<longrightarrow>
        slurm_spank_local_user_init e cfg w = Returned (- 1) w)
   \<and> (item_job_id e = Some jobid \<and> item_job_stepid e = Some stepid
        \<and> slurm_load_job e jobid = None \<longrightarrow>
        slurm_spank_local_user_init e cfg w
          = Returned (- 3) (log_error ''stunnel: unable to get job infos'' w))
   \<and> (item_job_id e = Some jobid \<and> item_job_stepid e = Some stepid
        \<and> slurm_load_job e jobid = Some jb \<and> record_count jb \<noteq> 1 \<longrightarrow>
        slurm_spank_local_user_init e cfg w
          = Returned (- 4) (log_error ''stunnel: job infos are invalid'' w))
   \<and> (item_job_id e = Some jobid \<and> item_job_stepid e = Some stepid
        \<and> slurm_load_job e jobid = Some jb \<and> record_count jb = 1
        \<and> job_array jb = jp # rest \<and> nodes jp = None \<longrightarrow>
        slurm_spank_local_user_init e cfg w
          = Returned (- 5) (log_error ''stunnel: job has no allocated nodes defined'' w))
   \<and> (item_job_id e = Some jobid \<and> item_job_stepid e = Some stepid
        \<and> slurm_load_job e jobid = Some jb \<and> record_count jb = 1
        \<and> job_array jb = jp # rest \<and> nodes jp = Some ns \<longrightarrow>
        (\<forall>st w'.
            connect_node e cfg (slurm_hostlist_shift (slurm_hostlist_create e ns))
              jobid stepid w = Returned st w' \<longrightarrow>
            slurm_spank_local_user_init e cfg w = Returned 0 w')
        \<and> (status_of (slurm_spank_local_user_init e cfg w) = None
            \<or> status_of (slurm_spank_local_user_init e cfg w) = Some 0)
        \<and> (\<not> malloc_ok e \<and> slurm_hostlist_create e ns = h # hs \<longrightarrow>
              slurm_spank_local_user_init e cfg w = Returned 0 w)
        \<and> (malloc_ok e \<and> (\<forall>c. popen e c = Some out) \<and> list_all isspace out
            \<and> slurm_hostlist_create e ns = h # hs \<longrightarrow>
              status_of (slurm_spank_local_user_init e cfg w) = Some 0
              \<and> last (logs (final_world (slurm_spank_local_user_init e cfg w)))
                  = LError (''tunnel: unable to connect node '' @ h)))"
proof (intro conjI impI allI)
  assume "item_job_id e = None"
  then show "slurm_spank_local_user_init e cfg w = Returned (- 1) w"
    by (simp add: slurm_spank_local_user_init_def)
next
  assume "item_job_id e = Some jobid \<and> item_job_stepid e = None"
  then show "slurm_spank_local_user_init e cfg w = Returned (- 1) w"
    by (simp add: slurm_spank_local_user_init_def)
next
  assume "item_job_id e = Some jobid \<and> item_job_stepid e = Some stepid
        \<and> slurm_load_job e jobid = None"
  then show "slurm_spank_local_user_init e cfg w
          = Returned (- 3) (log_error ''stunnel: unable to get job infos'' w)"
    by (simp add: slurm_spank_local_user_init_def)
next
  assume "item_job_id e = Some jobid \<and> item_job_stepid e = Some stepid
        \<and> slurm_load_job e jobid = Some jb \<and> record_count jb \<noteq> 1"
  then show "slurm_spank_local_user_init e cfg w
          = Returned (- 4) (log_error ''stunnel: job infos are invalid'' w)"
    by (simp add: slurm_spank_local_user_init_def)
next
  assume "item_job_id e = Some jobid \<and> item_job_stepid e = Some stepid
        \<and> slurm_load_job e jobid = Some jb \<and> record_count jb = 1
        \<and> job_array jb = jp # rest \<and> nodes jp = None"
  then show "slurm_spank_local_user_init e cfg w
          = Returned (- 5) (log_error ''stunnel: job has no allocated nodes defined'' w)"
    by (simp add: slurm_spank_local_user_init_def)
next
  assume r: "item_job_id e = Some jobid \<and> item_job_stepid e = Some stepid
        \<and> slurm_load_job e jobid = Some jb \<and> record_count jb = 1
        \<and> job_array jb = jp # rest \<and> nodes jp = Some ns"
  then have eq: "slurm_spank_local_user_init e cfg w
      = stunnel_connect_nodes e cfg ns jobid stepid w"
    using local_user_init_resolved [of e jobid stepid jb jp rest ns cfg w] by simp
  show "status_of (slurm_spank_local_user_init e cfg w) = None
         \<or> status_of (slurm_spank_local_user_init e cfg w) = Some 0"
    unfolding eq by (rule stunnel_connect_nodes_status)
  {
    fix st w'
    assume "connect_node e cfg (slurm_hostlist_shift (slurm_hostlist_create e ns))
              jobid stepid w = Returned st w'"
    then show "slurm_spank_local_user_init e cfg w = Returned 0 w'"
      unfolding eq by (rule stunnel_connect_nodes_returned)
  }
  {
    assume "\<not> malloc_ok e \<and> slurm_hostlist_create e ns = h # hs"
    then show "slurm_spank_local_user_init e cfg w = Returned 0 w"
      unfolding eq using stunnel_connect_nodes_no_buffer [of e ns h hs cfg jobid stepid w]
      by simp
  }
  assume l: "malloc_ok e \<and> (\<forall>c. popen e c = Some out) \<and> list_all isspace out
            \<and> slurm_hostlist_create e ns = h # hs"
  show "status_of (slurm_spank_local_user_init e cfg w) = Some 0"
    unfolding eq using l by (intro stunnel_connect_nodes_no_token(1)) auto
  show "last (logs (final_world (slurm_spank_local_user_init e cfg w)))
                  = LError (''tunnel: unable to connect node '' @ h)"
    unfolding eq using l by (intro stunnel_connect_nodes_no_token(2)) auto
qed

theorem local_user_init_status_witness:
  "connect_node (scenario_env (Some [])) initial_config (Some ''nodeA'') 100 0 empty_world
     = Returned (- 1)
         (final_world (connect_node (scenario_env (Some [])) initial_config (Some ''nodeA'')
                         100 0 empty_world))
   \<and> slurm_spank_local_user_init (scenario_env (Some [])) initial_config empty_world
     = Returned 0
         (final_world (connect_node (scenario_env (Some [])) initial_config (Some ''nodeA'')
                         100 0 empty_world))
   \<and> last (logs (final_world
        (slurm_spank_local_user_init (scenario_env (Some [])) initial_config empty_world)))
     = LError ''tunnel: unable to connect node nodeA''
   \<and> slurm_spank_local_user_init
        ((scenario_env (Some ''54321''))\<lparr>slurm_load_job := (\<lambda>_. Some
            \<lparr>record_count = 2,
             job_array = [\<lparr>nodes = Some ''nodeA''\<rparr>, \<lparr>nodes = Some ''nodeB''\<rparr>]\<rparr>)\<rparr>)
        initial_config empty_world
     = Returned (- 4) (log_error ''stunnel: job infos are invalid'' empty_world)"
proof -
  have cn: "connect_node (scenario_env (Some [])) initial_config (Some ''nodeA'') 100 0
              empty_world
     = Returned (- 1)
         (final_world (connect_node (scenario_env (Some [])) initial_config (Some ''nodeA'')
                         100 0 empty_world))"
    by (simp add: connect_node_unfold scenario_env_simps fscanf_255s_closed Let_def
        outcome_simps)
  have sh: "slurm_hostlist_shift
              (slurm_hostlist_create (scenario_env (Some [])) ''nodeA,nodeB'') = Some ''nodeA''"
    by (simp add: slurm_hostlist_shift_def scenario_env_simps)
  note t = local_user_init_status [of "scenario_env (Some [])" initial_config empty_world
        100 0 "\<lparr>record_count = 1, job_array = [\<lparr>nodes = Some ''nodeA,nodeB''\<rparr>]\<rparr>"
        "\<lparr>nodes = Some ''nodeA,nodeB''\<rparr>" "[]" "''nodeA,nodeB''" "''nodeA''"
        "[''nodeB'']" "[]"]
  have r: "item_job_id (scenario_env (Some [])) = Some 100
        \<and> item_job_stepid (scenario_env (Some [])) = Some 0
        \<and> slurm_load_job (scenario_env (Some [])) 100
            = Some \<lparr>record_count = 1, job_array = [\<lparr>nodes = Some ''nodeA,nodeB''\<rparr>]\<rparr>
        \<and> record_count \<lparr>record_count = 1, job_array = [\<lparr>nodes = Some ''nodeA,nodeB''\<rparr>]\<rparr>
            = 1
        \<and> job_array \<lparr>record_count = 1, job_array = [\<lparr>nodes = Some ''nodeA,nodeB''\<rparr>]\<rparr>
            = \<lparr>nodes = Some ''nodeA,nodeB''\<rparr> # []
        \<and> nodes \<lparr>nodes = Some ''nodeA,nodeB''\<rparr> = Some ''nodeA,nodeB''"
    by (simp add: scenario_env_def)
  note res = t [THEN conjunct2, THEN conjunct2, THEN conjunct2, THEN conjunct2, THEN conjunct2,
      THEN mp, OF r]
  have a: "slurm_spank_local_user_init (scenario_env (Some [])) initial_config empty_world
     = Returned 0
         (final_world (connect_node (scenario_env (Some [])) initial_config (Some ''nodeA'')
                         100 0 empty_world))"
    using res [THEN conjunct1, THEN spec, THEN spec, THEN mp] cn sh by simp
  have l: "last (logs (final_world
        (slurm_spank_local_user_init (scenario_env (Some [])) initial_config empty_world)))
     = LError ''tunnel: unable to connect node nodeA''"
    using res [THEN conjunct2, THEN conjunct2, THEN conjunct2]
    by (simp add: scenario_env_simps)
  have b: "slurm_spank_local_user_init
        ((scenario_env (Some ''54321''))\<lparr>slurm_load_job := (\<lambda>_. Some
            \<lparr>record_count = 2,
             job_array = [\<lparr>nodes = Some ''nodeA''\<rparr>, \<lparr>nodes = Some ''nodeB''\<rparr>]\<rparr>)\<rparr>)
        initial_config empty_world
     = Returned (- 4) (log_error ''stunnel: job infos are invalid'' empty_world)"
    using local_user_init_status [of
        "(scenario_env (Some ''54321''))\<lparr>slurm_load_job := (\<lambda>_. Some
            \<lparr>record_count = 2,
             job_array = [\<lparr>nodes = Some ''nodeA''\<rparr>, \<lparr>nodes = Some ''nodeB''\<rparr>]\<rparr>)\<rparr>"
        initial_config empty_world 100 0
        "\<lparr>record_count = 2,
             job_array = [\<lparr>nodes = Some ''nodeA''\<rparr>, \<lparr>nodes = Some ''nodeB''\<rparr>]\<rparr>"]
    by (simp add: scenario_env_def)
  show ?thesis by (intro conjI cn a l b)
qed

text \<open>
  C3 as stated fails: when the job cannot be loaded, the hook does not report success;
  it returns \<open>- 3\<close>.
\<close>

theorem resolution_failure_is_reported_counterexample:
  "slurm_spank_local_user_init
     ((scenario_env (Some ''54321''))\<lparr>slurm_load_job := (\<lambda>_. None)\<rparr>)
     initial_config empty_world
   = Returned (- 3) \<lparr>logs = [LError ''stunnel: unable to get job infos''], popen_calls = []\<rparr>"
  by (simp add: slurm_spank_local_user_init_def scenario_env_def log_error_def empty_world_def)

subsection \<open>An allocation that expands to no host\<close>

text \<open>
  C6 fails on the code. The resolver rejects an absent node list (\<^verbatim>\<open>nodes == NULL\<close>,
  status \<open>- 5\<close>) and lets an empty one through: for a record whose node list is the empty
  string, which expands to no host, the hook reaches \<^verbatim>\<open>_connect_node\<close> with a \<^verbatim>\<open>NULL\<close>
  host and never returns a status.
\<close>

theorem empty_node_list_not_rejected:
  "slurm_spank_local_user_init
     ((scenario_env (Some ''54321''))
        \<lparr>slurm_load_job := (\<lambda>_. Some \<lparr>record_count = 1, job_array = [\<lparr>nodes = Some []\<rparr>]\<rparr>),
         slurm_hostlist_create := (\<lambda>_. [])\<rparr>)
     initial_config empty_world
   = Crashed empty_world"
  by (simp add: slurm_spank_local_user_init_def scenario_env_def stunnel_connect_nodes_def
      slurm_hostlist_shift_def connect_node_def)

text \<open>
  C8 fails on the code. \<^verbatim>\<open>_stunnel_connect_nodes\<close> does not look at what
  \<^verbatim>\<open>slurm_hostlist_shift\<close> returned: on a host list with no element it passes \<^verbatim>\<open>NULL\<close>
  to \<^verbatim>\<open>_connect_node\<close>, whose first statement takes its length.
\<close>

theorem empty_host_list_crashes:
  "stunnel_connect_nodes
     ((scenario_env (Some ''54321''))\<lparr>slurm_hostlist_create := (\<lambda>_. [])\<rparr>)
     initial_config [] 100 0 empty_world
   = Crashed empty_world"
  by (simp add: scenario_env_def stunnel_connect_nodes_def slurm_hostlist_shift_def
      connect_node_def)

subsection \<open>The teardown hook\<close>

lemma exit_format:
  assumes "CHR ''%'' \<notin> set prog"
  shows "format (exit_pattern prog) [ArgU j, ArgU s] =
     Some (prog @ '' -i '' @ dec (unat j) @ ''.'' @ dec (unat s) @ '' -r 2>/dev/null'')"
  unfolding exit_pattern_def format_plain_prefix [OF assms] by simp

text \<open>The buffer of the teardown command is never too small.\<close>

lemma exit_snprintf:
  assumes "CHR ''%'' \<notin> set prog"
  shows "snprintf (length (exit_pattern prog) + 128) (exit_pattern prog) [ArgU j, ArgU s] =
     Some (prog @ '' -i '' @ dec (unat j) @ ''.'' @ dec (unat s) @ '' -r 2>/dev/null'',
           length prog + length (dec (unat j)) + length (dec (unat s)) + 20)"
proof -
  have lp: "length (exit_pattern prog) = length prog + 24"
    by (simp add: exit_pattern_def)
  show ?thesis
    using dec_u32_length [of j] dec_u32_length [of s]
    by (simp add: snprintf_def exit_format [OF assms] lp)
qed

lemma slurm_spank_exit_remote:
  assumes "spank_remote e" and "item_job_id e = Some jobid"
    and "item_job_stepid e = Some stepid" and "malloc_ok e" and "CHR ''%'' \<notin> set prog"
  shows "slurm_spank_exit prog e w =
    (let cmd = prog @ '' -i '' @ dec (unat jobid) @ ''.'' @ dec (unat stepid)
                 @ '' -r 2>/dev/null''
     in case popen e cmd of
          None \<Rightarrow>
            Returned 0
              (log_error (''x11: unable to exec remove cmd '' @ [CHR 0x27] @ cmd @ [CHR 0x27])
                 (record_popen cmd w))
        | Some out \<Rightarrow> Returned 0 (record_popen cmd w))"
proof -
  have n: "\<not> length (exit_pattern prog) + 128
      \<le> length prog + length (dec (unat jobid)) + length (dec (unat stepid)) + 20"
    using dec_u32_length [of jobid] dec_u32_length [of stepid]
    by (simp add: exit_pattern_def)
  show ?thesis
    unfolding slurm_spank_exit_def Let_def
    using assms(1-4) n by (simp add: exit_snprintf [OF assms(5)] cong: option.case_cong)
qed

text \<open>
  C9. In a remote context, with the job id and the step id available, the exit hook calls
  \<^verbatim>\<open>popen\<close> exactly once, on the helper's path followed by \<^verbatim>\<open>-i <jobId>.<stepId> -r\<close>
  (and the redirection of the standard error), and returns 0; what the command prints has no
  effect on the result. The launch command names the job step by the same text. In a
  local context the hook returns 0 and calls nothing.
\<close>

theorem exit_hook_teardown:
  "(\<not> spank_remote e \<longrightarrow> slurm_spank_exit prog e w = Returned 0 w)
   \<and> (spank_remote e \<and> item_job_id e = Some jobid \<and> item_job_stepid e = Some stepid
        \<and> malloc_ok e \<and> CHR ''%'' \<notin> set prog \<longrightarrow>
        status_of (slurm_spank_exit prog e w) = Some 0
        \<and> popen_calls (final_world (slurm_spank_exit prog e w)) =
            popen_calls w @
              [prog @ '' -i '' @ dec (unat jobid) @ ''.'' @ dec (unat stepid)
                 @ '' -r 2>/dev/null'']
        \<and> (\<forall>out. popen e (prog @ '' -i '' @ dec (unat jobid) @ ''.'' @ dec (unat stepid)
                             @ '' -r 2>/dev/null'') = Some out \<longrightarrow>
              slurm_spank_exit prog e w =
                Returned 0
                  (record_popen (prog @ '' -i '' @ dec (unat jobid) @ ''.''
                                   @ dec (unat stepid) @ '' -r 2>/dev/null'') w))
        \<and> (\<exists>pre post.
              popen_calls (final_world (connect_node e cfg (Some node) jobid stepid w)) =
                popen_calls w @
                  [pre @ '' -i '' @ dec (unat jobid) @ ''.'' @ dec (unat stepid) @ post]))"
proof (intro conjI impI allI)
  assume "\<not> spank_remote e"
  then show "slurm_spank_exit prog e w = Returned 0 w"
    by (simp add: slurm_spank_exit_def)
next
  assume a: "spank_remote e \<and> item_job_id e = Some jobid \<and> item_job_stepid e = Some stepid
        \<and> malloc_ok e \<and> CHR ''%'' \<notin> set prog"
  then have u: "slurm_spank_exit prog e w =
    (let cmd = prog @ '' -i '' @ dec (unat jobid) @ ''.'' @ dec (unat stepid)
                 @ '' -r 2>/dev/null''
     in case popen e cmd of
          None \<Rightarrow>
            Returned 0
              (log_error (''x11: unable to exec remove cmd '' @ [CHR 0x27] @ cmd @ [CHR 0x27])
                 (record_popen cmd w))
        | Some out \<Rightarrow> Returned 0 (record_popen cmd w))"
    using slurm_spank_exit_remote [of e jobid stepid prog w] by simp
  show "status_of (slurm_spank_exit prog e w) = Some 0"
    unfolding u Let_def by (simp add: outcome_simps split: option.split)
  show "popen_calls (final_world (slurm_spank_exit prog e w)) =
            popen_calls w @
              [prog @ '' -i '' @ dec (unat jobid) @ ''.'' @ dec (unat stepid)
                 @ '' -r 2>/dev/null'']"
    unfolding u Let_def by (simp add: outcome_simps world_simps split: option.split)
  show "\<exists>pre post.
              popen_calls (final_world (connect_node e cfg (Some node) jobid stepid w)) =
                popen_calls w @
                  [pre @ '' -i '' @ dec (unat jobid) @ ''.'' @ dec (unat stepid) @ post]"
    using a
    by (intro exI [where x = "STUNNEL_LIBEXEC_PROG @ '' -t '' @ node"]
        exI [where x = "'' -cgw -s '' @ [dquote] @ ssh_cmd_or_default cfg @ [dquote]
           @ '' -o '' @ [dquote] @ ssh_args_or_default cfg @ [dquote]
           @ '' 2>/dev/null '' @ helpertask_args_or_default cfg @ '' &''"])
       (simp add: connect_node_popen_calls)
  fix out
  assume "popen e (prog @ '' -i '' @ dec (unat jobid) @ ''.'' @ dec (unat stepid)
                             @ '' -r 2>/dev/null'') = Some out"
  then show "slurm_spank_exit prog e w =
                Returned 0
                  (record_popen (prog @ '' -i '' @ dec (unat jobid) @ ''.''
                                   @ dec (unat stepid) @ '' -r 2>/dev/null'') w)"
    unfolding u Let_def by simp
qed

theorem exit_hook_teardown_witness:
  "status_of (slurm_spank_exit ''/usr/libexec/stunnel''
      ((scenario_env (Some []))\<lparr>spank_remote := True\<rparr>) empty_world) = Some 0
   \<and> popen_calls (final_world (slurm_spank_exit ''/usr/libexec/stunnel''
      ((scenario_env (Some []))\<lparr>spank_remote := True\<rparr>) empty_world))
     = [''/usr/libexec/stunnel -i 100.0 -r 2>/dev/null'']
   \<and> slurm_spank_exit ''/usr/libexec/stunnel'' (scenario_env (Some [])) empty_world
     = Returned 0 empty_world"
proof -
  have a: "status_of (slurm_spank_exit ''/usr/libexec/stunnel''
      ((scenario_env (Some []))\<lparr>spank_remote := True\<rparr>) empty_world) = Some 0
   \<and> popen_calls (final_world (slurm_spank_exit ''/usr/libexec/stunnel''
      ((scenario_env (Some []))\<lparr>spank_remote := True\<rparr>) empty_world))
     = [''/usr/libexec/stunnel -i 100.0 -r 2>/dev/null'']"
    using exit_hook_teardown [of "(scenario_env (Some []))\<lparr>spank_remote := True\<rparr>"
        "''/usr/libexec/stunnel''" empty_world 100 0 initial_config "''nodeA''"]
    by (simp add: scenario_env_def empty_world_def dec_100 dec_0 outcome_simps world_simps)
  have b: "slurm_spank_exit ''/usr/libexec/stunnel'' (scenario_env (Some [])) empty_world
     = Returned 0 empty_world"
    using exit_hook_teardown [of "scenario_env (Some [])" "''/usr/libexec/stunnel''"
        empty_world]
    by (simp add: scenario_env_def)
  from a b show ?thesis by simp
qed

subsection \<open>Defaults and configuration tokens\<close>

lemma strncmp_eq_prefix: "length k = n \<Longrightarrow> strncmp_eq elt k n = prefix k elt"
proof -
  assume n: "length k = n"
  have "take (length k) elt = k \<longleftrightarrow> prefix k elt"
    by (metis append_eq_conv_conj prefix_def)
  then show ?thesis using n by (simp add: strncmp_eq_def)
qed

lemma key_prefixes:
  "strncmp_eq elt ''ssh_cmd='' 8 = prefix ''ssh_cmd='' elt"
  "strncmp_eq elt ''ssh_args='' 9 = prefix ''ssh_args='' elt"
  "strncmp_eq elt ''helpertask_args='' 16 = prefix ''helpertask_args='' elt"
  by (simp_all add: strncmp_eq_prefix)

lemma keys_exclusive:
  "prefix ''ssh_cmd='' elt \<Longrightarrow> \<not> prefix ''ssh_args='' elt"
  "prefix ''ssh_cmd='' elt \<Longrightarrow> \<not> prefix ''helpertask_args='' elt"
  "prefix ''ssh_args='' elt \<Longrightarrow> \<not> prefix ''helpertask_args='' elt"
  by (auto dest: prefix_same_cases)

lemma init_config_step_fields:
  assumes "\<And>s. strdup s = Some s"
  shows "ssh_cmd (init_config_step strdup elt cfg) =
           (if prefix ''ssh_cmd='' elt then Some (replace_pipes (drop 8 elt)) else ssh_cmd cfg)"
    and "ssh_args (init_config_step strdup elt cfg) =
           (if prefix ''ssh_args='' elt then Some (replace_pipes (drop 9 elt))
            else ssh_args cfg)"
    and "helpertask_args (init_config_step strdup elt cfg) =
           (if prefix ''helpertask_args='' elt then Some (replace_pipes (drop 16 elt))
            else helpertask_args cfg)"
  using keys_exclusive [of elt]
  by (auto simp: init_config_step_def key_prefixes assms)

lemma init_config_fields:
  assumes "\<And>s. strdup s = Some s"
  shows "ssh_cmd (stunnel_init_config strdup av cfg) =
           (case filter (prefix ''ssh_cmd='') av of
              [] \<Rightarrow> ssh_cmd cfg
            | t # ts \<Rightarrow> Some (replace_pipes (drop 8 (last (t # ts)))))"
    and "ssh_args (stunnel_init_config strdup av cfg) =
           (case filter (prefix ''ssh_args='') av of
              [] \<Rightarrow> ssh_args cfg
            | t # ts \<Rightarrow> Some (replace_pipes (drop 9 (last (t # ts)))))"
    and "helpertask_args (stunnel_init_config strdup av cfg) =
           (case filter (prefix ''helpertask_args='') av of
              [] \<Rightarrow> helpertask_args cfg
            | t # ts \<Rightarrow> Some (replace_pipes (drop 16 (last (t # ts)))))"
proof (induction av arbitrary: cfg)
  case Nil
  {
    case 1 show ?case by simp
  next
    case 2 show ?case by simp
  next
    case 3 show ?case by simp
  }
next
  case (Cons elt av)
  {
    case 1
    show ?case
      by (simp add: Cons.IH(1) init_config_step_fields(1) [OF assms] split: list.split)
  next
    case 2
    show ?case
      by (simp add: Cons.IH(2) init_config_step_fields(2) [OF assms] split: list.split)
  next
    case 3
    show ?case
      by (simp add: Cons.IH(3) init_config_step_fields(3) [OF assms] split: list.split)
  }
qed

lemma init_config_or_default:
  assumes "\<And>s. strdup s = Some s"
  shows "ssh_cmd_or_default (stunnel_init_config strdup av initial_config) =
         (case filter (prefix ''ssh_cmd='') av of
            [] \<Rightarrow> ''ssh''
          | t # ts \<Rightarrow> replace_pipes (drop 8 (last (t # ts))))"
    and "ssh_args_or_default (stunnel_init_config strdup av initial_config) =
         (case filter (prefix ''ssh_args='') av of
            [] \<Rightarrow> []
          | t # ts \<Rightarrow> replace_pipes (drop 9 (last (t # ts))))"
    and "helpertask_args_or_default (stunnel_init_config strdup av initial_config) =
         (case filter (prefix ''helpertask_args='') av of
            [] \<Rightarrow> []
          | t # ts \<Rightarrow> replace_pipes (drop 16 (last (t # ts))))"
  unfolding ssh_cmd_or_default_def ssh_args_or_default_def
    helpertask_args_or_default_def init_config_fields [OF assms]
  by (simp_all add: initial_config_def DEFAULT_SSH_CMD_def DEFAULT_SSH_ARGS_def
      DEFAULT_HELPERTASK_ARGS_def split: list.split)

lemma init_config_unset:
  assumes "\<And>s. strdup s = Some s"
  shows "ssh_cmd (stunnel_init_config strdup av initial_config) = None
           \<longleftrightarrow> \<not> list_ex (prefix ''ssh_cmd='') av"
    and "ssh_args (stunnel_init_config strdup av initial_config) = None
           \<longleftrightarrow> \<not> list_ex (prefix ''ssh_args='') av"
    and "helpertask_args (stunnel_init_config strdup av initial_config) = None
           \<longleftrightarrow> \<not> list_ex (prefix ''helpertask_args='') av"
proof -
  have ex: "\<And>P. (\<not> list_ex P av) = (filter P av = [])"
    by (auto simp: list_ex_iff filter_empty_conv)
  show "ssh_cmd (stunnel_init_config strdup av initial_config) = None
           \<longleftrightarrow> \<not> list_ex (prefix ''ssh_cmd='') av"
    unfolding ex init_config_fields [OF assms]
    by (simp add: initial_config_def split: list.split)
  show "ssh_args (stunnel_init_config strdup av initial_config) = None
           \<longleftrightarrow> \<not> list_ex (prefix ''ssh_args='') av"
    unfolding ex init_config_fields [OF assms]
    by (simp add: initial_config_def split: list.split)
  show "helpertask_args (stunnel_init_config strdup av initial_config) = None
           \<longleftrightarrow> \<not> list_ex (prefix ''helpertask_args='') av"
    unfolding ex init_config_fields [OF assms]
    by (simp add: initial_config_def split: list.split)
qed

text \<open>
  C10. Let the loader run on the tokens \<open>av\<close>, starting from the three \<^verbatim>\<open>NULL\<close>
  pointers, and let the launcher then render its command. For each of the three fields,
  the command carries the compiled-in default (\<^verbatim>\<open>ssh\<close>, empty, empty) exactly when no
  token starts with the field's key, which is when the pointer is still \<^verbatim>\<open>NULL\<close>;
  otherwise it carries the rest of the last such token, with every \<^verbatim>\<open>|\<close> turned into a
  space, also when that rest is empty.
\<close>

theorem default_iff_no_token:
  assumes "\<And>s. strdup s = Some s"
  shows
    "(malloc_ok e \<longrightarrow>
        popen_calls (final_world
            (connect_node e (stunnel_init_config strdup av initial_config) (Some node)
               jobid stepid w)) =
          popen_calls w @
            [''/usr/libexec/stunnel -t '' @ node @ '' -i '' @ dec (unat jobid) @ ''.''
               @ dec (unat stepid) @ '' -cgw -s '' @ [dquote]
               @ (case filter (prefix ''ssh_cmd='') av of
                    [] \<Rightarrow> ''ssh''
                  | t # ts \<Rightarrow> replace_pipes (drop 8 (last (t # ts))))
               @ [dquote] @ '' -o '' @ [dquote]
               @ (case filter (prefix ''ssh_args='') av of
                    [] \<Rightarrow> []
                  | t # ts \<Rightarrow> replace_pipes (drop 9 (last (t # ts))))
               @ [dquote] @ '' 2>/dev/null ''
               @ (case filter (prefix ''helpertask_args='') av of
                    [] \<Rightarrow> []
                  | t # ts \<Rightarrow> replace_pipes (drop 16 (last (t # ts))))
               @ '' &''])
     \<and> (ssh_cmd (stunnel_init_config strdup av initial_config) = None
        \<longleftrightarrow> \<not> list_ex (prefix ''ssh_cmd='') av)
     \<and> (ssh_args (stunnel_init_config strdup av initial_config) = None
        \<longleftrightarrow> \<not> list_ex (prefix ''ssh_args='') av)
     \<and> (helpertask_args (stunnel_init_config strdup av initial_config) = None
        \<longleftrightarrow> \<not> list_ex (prefix ''helpertask_args='') av)
     \<and> ssh_cmd_or_default (stunnel_init_config strdup av initial_config) =
         (case filter (prefix ''ssh_cmd='') av of
            [] \<Rightarrow> ''ssh''
          | t # ts \<Rightarrow> replace_pipes (drop 8 (last (t # ts))))
     \<and> ssh_args_or_default (stunnel_init_config strdup av initial_config) =
         (case filter (prefix ''ssh_args='') av of
            [] \<Rightarrow> []
          | t # ts \<Rightarrow> replace_pipes (drop 9 (last (t # ts))))
     \<and> helpertask_args_or_default (stunnel_init_config strdup av initial_config) =
         (case filter (prefix ''helpertask_args='') av of
            [] \<Rightarrow> []
          | t # ts \<Rightarrow> replace_pipes (drop 16 (last (t # ts))))"
proof (intro conjI impI)
  assume m: "malloc_ok e"
  show "popen_calls (final_world
            (connect_node e (stunnel_init_config strdup av initial_config) (Some node)
               jobid stepid w)) =
          popen_calls w @
            [''/usr/libexec/stunnel -t '' @ node @ '' -i '' @ dec (unat jobid) @ ''.''
               @ dec (unat stepid) @ '' -cgw -s '' @ [dquote]
               @ (case filter (prefix ''ssh_cmd='') av of
                    [] \<Rightarrow> ''ssh''
                  | t # ts \<Rightarrow> replace_pipes (drop 8 (last (t # ts))))
               @ [dquote] @ '' -o '' @ [dquote]
               @ (case filter (prefix ''ssh_args='') av of
                    [] \<Rightarrow> []
                  | t # ts \<Rightarrow> replace_pipes (drop 9 (last (t # ts))))
               @ [dquote] @ '' 2>/dev/null ''
               @ (case filter (prefix ''helpertask_args='') av of
                    [] \<Rightarrow> []
                  | t # ts \<Rightarrow> replace_pipes (drop 16 (last (t # ts))))
               @ '' &'']"
    unfolding connect_node_popen_calls [OF m] init_config_or_default [OF assms]
    by (simp add: STUNNEL_LIBEXEC_PROG_def)
qed (rule init_config_unset [OF assms] init_config_or_default [OF assms])+

theorem default_iff_no_token_witness:
  "popen_calls (final_world
      (connect_node (scenario_env (Some ''54321''))
         (stunnel_init_config Some [''ssh_cmd='', ''ssh_args=-v|-4''] initial_config)
         (Some ''nodeA'') 100 0 empty_world))
     = [''/usr/libexec/stunnel -t nodeA -i 100.0 -cgw -s '' @ [dquote, dquote] @ '' -o ''
          @ [dquote] @ ''-v -4'' @ [dquote] @ '' 2>/dev/null  &'']
   \<and> ssh_cmd (stunnel_init_config Some [''ssh_cmd='', ''ssh_args=-v|-4''] initial_config)
       \<noteq> None
   \<and> ssh_cmd_or_default
       (stunnel_init_config Some [''ssh_cmd='', ''ssh_args=-v|-4''] initial_config) = []
   \<and> ssh_args_or_default
       (stunnel_init_config Some [''ssh_cmd='', ''ssh_args=-v|-4''] initial_config) = ''-v -4''
   \<and> helpertask_args
       (stunnel_init_config Some [''ssh_cmd='', ''ssh_args=-v|-4''] initial_config) = None"
proof -
  have s: "\<And>s :: string. Some s = Some s" by simp
  show ?thesis
    using default_iff_no_token [OF s, of "scenario_env (Some ''54321'')"
        "[''ssh_cmd='', ''ssh_args=-v|-4'']" "''nodeA''" 100 0 empty_world]
    by (simp add: scenario_env_simps empty_world_def dec_100 dec_0)
qed

subsection \<open>The \<^verbatim>\<open>--tunnel\<close> option value\<close>

lemma split_on_not_Nil: "split_on sep s \<noteq> []"
  by (induction s) (auto split: list.split)

lemma join_with_Cons:
  "es \<noteq> [] \<Longrightarrow> join_with sep (e # es) = e @ sep # join_with sep es"
  by (cases es) simp_all

lemma join_split_on: "join_with sep (split_on sep s) = s"
proof (induction s)
  case Nil
  show ?case by simp
next
  case (Cons c s)
  obtain f fs where sp: "split_on sep s = f # fs"
    using split_on_not_Nil [of sep s] by (cases "split_on sep s") auto
  show ?case
  proof (cases "c = sep")
    case True
    then show ?thesis using Cons.IH by (simp add: join_with_Cons split_on_not_Nil)
  next
    case False
    have "join_with sep ((c # f) # fs) = c # join_with sep (f # fs)"
      by (cases fs) simp_all
    then show ?thesis using False Cons.IH sp by simp
  qed
qed

lemma split_on_no_sep: "sep \<notin> set e \<Longrightarrow> split_on sep e = [e]"
  by (induction e) auto

lemma split_on_append:
  "sep \<notin> set e \<Longrightarrow> split_on sep (e @ sep # r) = e # split_on sep r"
  by (induction e) auto

lemma split_on_fields: "f \<in> set (split_on sep s) \<Longrightarrow> sep \<notin> set f"
proof (induction s arbitrary: f)
  case Nil
  then show ?case by simp
next
  case (Cons c s)
  obtain g gs where sp: "split_on sep s = g # gs"
    using split_on_not_Nil [of sep s] by (cases "split_on sep s") auto
  show ?case
  proof (cases "c = sep")
    case True
    then show ?thesis using Cons by auto
  next
    case False
    then have "f = c # g \<or> f \<in> set gs" using Cons.prems sp by simp
    then show ?thesis
    proof
      assume "f = c # g"
      moreover have "sep \<notin> set g" using Cons.IH [of g] sp by simp
      ultimately show ?thesis using False by auto
    next
      assume "f \<in> set gs"
      then show ?thesis using Cons.IH [of f] sp by simp
    qed
  qed
qed

lemma split_on_join:
  "es \<noteq> [] \<Longrightarrow> list_all (\<lambda>e. sep \<notin> set e) es \<Longrightarrow> split_on sep (join_with sep es) = es"
proof (induction es)
  case Nil
  then show ?case by simp
next
  case (Cons e es)
  show ?case
  proof (cases es)
    case Nil
    then show ?thesis using Cons.prems by (simp add: split_on_no_sep)
  next
    case (Cons e' es')
    then have "split_on sep (join_with sep es) = es" using Cons.IH Cons.prems by simp
    then show ?thesis
      using Cons.prems Cons by (simp add: split_on_append)
  qed
qed

lemma is_digit_not_separator: "is_digit c \<Longrightarrow> c \<noteq> CHR '':'' \<and> c \<noteq> CHR '',''"
  unfolding is_digit_def by (elim rev_mp) simp

lemma digit_not_separator:
  "list_all is_digit tok \<Longrightarrow> CHR '':'' \<notin> set tok \<and> CHR '','' \<notin> set tok"
proof (induction tok)
  case Nil
  show ?case by simp
next
  case (Cons c tok)
  then have "is_digit c" and "list_all is_digit tok" by simp_all
  then show ?case
    using Cons.IH is_digit_not_separator [of c] by auto
qed

lemma unat_u16_bound: "unat (p :: 16 word) \<le> 65535"
proof -
  have "unat p < 2 ^ 16" using unsigned_less [of p] by simp
  then show ?thesis by simp
qed

lemma unat_of_nat_u16: "n \<le> 65535 \<Longrightarrow> unat (of_nat n :: 16 word) = n"
  by (simp add: unat_of_nat take_bit_nat_eq_self)

lemma parse_port_Some: "parse_port tok = Some p \<longleftrightarrow> valid_port_text tok p"
proof (cases "tok \<noteq> [] \<and> list_all is_digit tok \<and> 1 \<le> dec_val tok \<and> dec_val tok \<le> 65535")
  case True
  then have pp: "parse_port tok = Some (of_nat (dec_val tok))"
    by (simp add: parse_port_def)
  have u: "unat (of_nat (dec_val tok) :: 16 word) = dec_val tok"
    using True by (intro unat_of_nat_u16) simp
  show ?thesis
  proof
    assume "parse_port tok = Some p"
    then have "p = of_nat (dec_val tok)" unfolding pp by simp
    then have "unat p = dec_val tok" using u by (simp only:)
    then show "valid_port_text tok p"
      unfolding valid_port_text_def using True by (simp only: simp_thms)
  next
    assume "valid_port_text tok p"
    then have "dec_val tok = unat p" unfolding valid_port_text_def by (elim conjE)
    then have "(of_nat (dec_val tok) :: 16 word) = p" by (simp only: of_nat_unat unsigned_word_eqI ucast_id)
    then show "parse_port tok = Some p" unfolding pp by (simp only:)
  qed
next
  case False
  then have pp: "parse_port tok = None"
    by (simp add: parse_port_def)
  have "\<not> valid_port_text tok p"
  proof
    assume "valid_port_text tok p"
    then have v: "tok \<noteq> []" "list_all is_digit tok" "dec_val tok = unat p" "1 \<le> unat p"
      unfolding valid_port_text_def by blast+
    have "dec_val tok \<le> 65535" unfolding v(3) by (rule unat_u16_bound)
    moreover have "1 \<le> dec_val tok" unfolding v(3) by (rule v(4))
    ultimately show False using False v(1,2) by (simp only: simp_thms)
  qed
  then show ?thesis unfolding pp by simp
qed

lemma parse_pair_Some: "parse_pair entry = Some pq \<longleftrightarrow> valid_pair_text entry pq"
proof
  assume ps: "parse_pair entry = Some pq"
  then obtain a b where sp: "split_on (CHR '':'') entry = [a, b]"
    by (auto simp: parse_pair_def split: list.splits)
  have e: "entry = a @ '':'' @ b"
    using join_split_on [of "CHR '':''" entry] sp by simp
  have "parse_port a = Some (fst pq) \<and> parse_port b = Some (snd pq)"
    using ps sp by (auto simp: parse_pair_def split: option.splits)
  then show "valid_pair_text entry pq"
    using e by (auto simp: valid_pair_text_def parse_port_Some)
next
  assume "valid_pair_text entry pq"
  then obtain a b where e: "entry = a @ '':'' @ b"
    and a: "valid_port_text a (fst pq)" and b: "valid_port_text b (snd pq)"
    by (auto simp: valid_pair_text_def)
  have na: "CHR '':'' \<notin> set a" and nb: "CHR '':'' \<notin> set b"
    using a b digit_not_separator by (auto simp: valid_port_text_def)
  have "split_on (CHR '':'') entry = [a, b]"
    using na nb by (simp add: e split_on_append split_on_no_sep)
  then show "parse_pair entry = Some pq"
    using a b by (simp add: parse_pair_def parse_port_Some [symmetric])
qed

lemma parse_pairs_Some:
  "parse_pairs entries = Some spec \<longleftrightarrow> list_all2 valid_pair_text entries spec"
proof (induction entries arbitrary: spec)
  case Nil
  show ?case by auto
next
  case (Cons e es)
  show ?case
  proof (cases "parse_pair e")
    case None
    then have "\<And>pq. \<not> valid_pair_text e pq"
      using parse_pair_Some [of e] by simp
    then show ?thesis using None by (auto simp: list_all2_Cons1)
  next
    case (Some pq)
    have v: "valid_pair_text e pq' \<longleftrightarrow> pq' = pq" for pq'
      using parse_pair_Some [of e pq'] Some by auto
    show ?thesis
    proof (cases spec)
      case Nil
      then show ?thesis using Some by simp
    next
      case (Cons q qs)
      have "parse_pairs (e # es) = Some (q # qs) \<longleftrightarrow> q = pq \<and> parse_pairs es = Some qs"
        using Some by (cases "parse_pairs es") auto
      then show ?thesis
        unfolding Cons using Cons.IH [of qs] by (simp add: v)
    qed
  qed
qed

lemma valid_pair_text_no_comma: "valid_pair_text entry pq \<Longrightarrow> CHR '','' \<notin> set entry"
  using digit_not_separator by (auto simp: valid_pair_text_def valid_port_text_def)

lemma list_all2_no_comma:
  "list_all2 valid_pair_text es spec \<Longrightarrow> list_all (\<lambda>e. CHR '','' \<notin> set e) es"
  by (induction rule: list_all2_induct) (simp_all add: valid_pair_text_no_comma)

lemma parseTunnelOption_Inr: "parseTunnelOption ov = Inr spec \<longleftrightarrow> valid_tunnel_value ov spec"
proof
  assume p: "parseTunnelOption ov = Inr spec"
  then obtain v where ov: "ov = Some v"
    by (cases ov) (auto simp: parseTunnelOption_def)
  have "parse_pairs (split_on (CHR '','') v) = Some spec"
    using p ov by (auto simp: parseTunnelOption_def split: option.splits)
  then have "list_all2 valid_pair_text (split_on (CHR '','') v) spec"
    by (simp add: parse_pairs_Some)
  then show "valid_tunnel_value ov spec"
    unfolding valid_tunnel_value_def
    by (intro exI [where x = "split_on (CHR '','') v"])
       (simp add: ov join_split_on split_on_not_Nil)
next
  assume "valid_tunnel_value ov spec"
  then obtain es where ov: "ov = Some (join_with (CHR '','') es)" and ne: "es \<noteq> []"
    and v: "list_all2 valid_pair_text es spec"
    by (auto simp: valid_tunnel_value_def)
  have "list_all (\<lambda>e. CHR '','' \<notin> set e) es"
    using v by (rule list_all2_no_comma)
  then have "split_on (CHR '','') (join_with (CHR '','') es) = es"
    using ne by (rule split_on_join [rotated])
  then show "parseTunnelOption ov = Inr spec"
    using v by (simp add: parseTunnelOption_def ov parse_pairs_Some [symmetric])
qed

text \<open>
  C1. The parser accepts a value exactly when it is a comma-separated list of one or
  more pairs, each of them two non-empty runs of decimal digits joined by one colon and
  each run denoting a port between 1 and 65535; the pairs it returns are the ports read, in
  order. Every other value, the absent one included, fails with \<^const>\<open>InvalidFormat\<close>, and
  then the option-parse step returns a non-zero status and stores no pairs.
\<close>

theorem tunnel_option_validated:
  "(parseTunnelOption ov = Inr spec \<longleftrightarrow> valid_tunnel_value ov spec)
   \<and> (parseTunnelOption ov = Inl InvalidFormat \<longleftrightarrow> (\<forall>spec'. \<not> valid_tunnel_value ov spec'))
   \<and> (tunnel_opt_process ov = (0, Some spec) \<longleftrightarrow> valid_tunnel_value ov spec)
   \<and> (tunnel_opt_process ov = (- 1, None) \<longleftrightarrow> (\<forall>spec'. \<not> valid_tunnel_value ov spec'))"
proof -
  have inl: "parseTunnelOption ov = Inl InvalidFormat
      \<longleftrightarrow> (\<forall>spec'. \<not> valid_tunnel_value ov spec')"
  proof (cases "parseTunnelOption ov")
    case (Inl err)
    then have "\<And>spec'. \<not> valid_tunnel_value ov spec'"
      using parseTunnelOption_Inr [of ov] by simp
    then show ?thesis using Inl by (cases err) simp
  next
    case (Inr s)
    then have "valid_tunnel_value ov s" by (simp add: parseTunnelOption_Inr)
    then show ?thesis using Inr by auto
  qed
  have ok: "tunnel_opt_process ov = (0, Some spec) \<longleftrightarrow> parseTunnelOption ov = Inr spec"
    by (auto simp: tunnel_opt_process_def split: sum.splits)
  have bad: "tunnel_opt_process ov = (- 1, None) \<longleftrightarrow> parseTunnelOption ov = Inl InvalidFormat"
  proof (cases "parseTunnelOption ov")
    case (Inl err)
    then show ?thesis by (cases err) (simp add: tunnel_opt_process_def)
  next
    case (Inr s)
    then show ?thesis by (simp add: tunnel_opt_process_def)
  qed
  show ?thesis
    unfolding ok bad using inl parseTunnelOption_Inr [of ov spec] by simp
qed

lemmas parser_defs =
  parseTunnelOption_def parse_pair_def parse_port_def dec_val_def digit_val_def is_digit_def
  tunnel_opt_process_def

theorem tunnel_option_validated_witness:
  "parseTunnelOption (Some ''8080:80,5000:5001'') = Inr [(8080, 80), (5000, 5001)]
   \<and> valid_tunnel_value (Some ''8080:80,5000:5001'') [(8080, 80), (5000, 5001)]
   \<and> tunnel_opt_process (Some ''8080:70000'') = (- 1, None)
   \<and> (\<forall>spec'. \<not> valid_tunnel_value (Some ''8080:70000'') spec')
   \<and> tunnel_opt_process (Some ''8080:0'') = (- 1, None)
   \<and> tunnel_opt_process (Some ''80:8a'') = (- 1, None)
   \<and> tunnel_opt_process (Some ''80:80:80'') = (- 1, None)
   \<and> tunnel_opt_process (Some ''8080'') = (- 1, None)
   \<and> tunnel_opt_process None = (- 1, None)"
proof -
  have a: "parseTunnelOption (Some ''8080:80,5000:5001'') = Inr [(8080, 80), (5000, 5001)]"
    by (simp add: parser_defs)
  have b: "tunnel_opt_process (Some ''8080:70000'') = (- 1, None)"
    by (simp add: parser_defs)
  have c: "tunnel_opt_process (Some ''8080:0'') = (- 1, None)"
    "tunnel_opt_process (Some ''80:8a'') = (- 1, None)"
    "tunnel_opt_process (Some ''80:80:80'') = (- 1, None)"
    "tunnel_opt_process (Some ''8080'') = (- 1, None)"
    "tunnel_opt_process None = (- 1, None)"
    by (simp_all add: parser_defs)
  have a': "valid_tunnel_value (Some ''8080:80,5000:5001'') [(8080, 80), (5000, 5001)]"
    by (rule tunnel_option_validated [THEN conjunct1, THEN iffD1, OF a])
  have b': "\<forall>spec'. \<not> valid_tunnel_value (Some ''8080:70000'') spec'"
    by (rule tunnel_option_validated [of _ "[]", THEN conjunct2, THEN conjunct2,
          THEN conjunct2, THEN iffD1, OF b])
  show ?thesis
    by (intro conjI a a' b b' c)
qed

end
